theory Spec2Isabelle
  imports Complex_Main
begin

section \<open>pyShelly: the block of a physical device and the firmware catalogue\<close>

text \<open>
  A shallow embedding of \<^verbatim>\<open>pyShelly/block.py\<close> (class \<^verbatim>\<open>Block\<close>) and
  \<^verbatim>\<open>pyShelly/firmware.py\<close> (class \<^verbatim>\<open>FirmwareManager\<close>).
  A method that mutates \<^verbatim>\<open>self\<close> takes the block and returns the new block.
  Calls on collaborators (the HTTP transport, the device registry of the parent, the
  sub-device objects, the observer callbacks) are appended, in program order, to the
  field \<open>events\<close> of the block; what the collaborators answer is read from an
  environment record. A Python exception is a value of type \<open>exn\<close>.
\<close>

subsection \<open>Python values\<close>

text \<open>
  The scalar values an info value can hold. Floats are left out. \<open>truthy\<close> is Python's
  truth test (\<^verbatim>\<open>if v:\<close>), \<open>py_eq\<close> is \<^verbatim>\<open>==\<close>, under which \<^verbatim>\<open>True == 1\<close> and
  \<^verbatim>\<open>False == 0\<close>.
\<close>

datatype pyval = PNone | PBool bool | PInt int | PStr string

fun truthy :: "pyval \<Rightarrow> bool" where
  "truthy PNone = False"
| "truthy (PBool b) = b"
| "truthy (PInt i) = (i \<noteq> 0)"
| "truthy (PStr s) = (s \<noteq> [])"

fun py_eq :: "pyval \<Rightarrow> pyval \<Rightarrow> bool" where
  "py_eq PNone PNone = True"
| "py_eq (PBool a) (PBool b) = (a = b)"
| "py_eq (PInt a) (PInt b) = (a = b)"
| "py_eq (PBool a) (PInt b) = ((if a then 1 else 0) = b)"
| "py_eq (PInt a) (PBool b) = (a = (if b then 1 else 0))"
| "py_eq (PStr a) (PStr b) = (a = b)"
| "py_eq _ _ = False"

text \<open>A parsed JSON value, as found in the answers of \<^verbatim>\<open>/status\<close> and
  \<^verbatim>\<open>/settings\<close>. A dict is an association list; \<^verbatim>\<open>d.get(k)\<close> is \<open>map_of\<close>.\<close>

datatype json = JNull | JBool bool | JInt int | JStr string
  | JList "json list" | JDict "(string \<times> json) list"

subsection \<open>Time\<close>

text \<open>
  A \<^verbatim>\<open>datetime\<close> is a number of microseconds, the resolution of Python's clock; the
  difference of two is a \<^verbatim>\<open>timedelta\<close>, and \<^verbatim>\<open>total_seconds()\<close> is taken exactly
  (as a rational, not rounded to a float).
\<close>

type_synonym datetime = int

definition total_seconds :: "int \<Rightarrow> rat" where
  "total_seconds d = of_int d / 1000000"

subsection \<open>Names of info values and extraction rules\<close>

text \<open>
  The constants \<^verbatim>\<open>INFO_VALUE_*\<close> that \<^verbatim>\<open>block.py\<close> imports from \<^verbatim>\<open>const.py\<close>:
  pairwise different keys of the dict \<^verbatim>\<open>info_values\<close>. Any further key is
  \<open>INFO_VALUE_OTHER\<close>.
\<close>

datatype info_name =
    INFO_VALUE_DEVICE_TEMP | INFO_VALUE_CLOUD_STATUS | INFO_VALUE_CLOUD_ENABLED
  | INFO_VALUE_CLOUD_CONNECTED | INFO_VALUE_HAS_FIRMWARE_UPDATE | INFO_VALUE_FW_VERSION
  | INFO_VALUE_LATEST_FIRMWARE_VERSION | INFO_VALUE_LATEST_BETA_FW_VERSION
  | INFO_VALUE_PAYLOAD | INFO_VALUE_BATTERY | INFO_VALUE_ILLUMINANCE | INFO_VALUE_TILT
  | INFO_VALUE_VIBRATION | INFO_VALUE_TEMP | INFO_VALUE_PPM | INFO_VALUE_SENSOR
  | INFO_VALUE_TOTAL_WORK_TIME | INFO_VALUE_OTHER string

text \<open>
  One entry of \<^verbatim>\<open>_info_value_cfg\<close>: a dict with the optional keys \<^verbatim>\<open>ATTR_POS\<close>,
  \<^verbatim>\<open>ATTR_PATH\<close>, \<^verbatim>\<open>ATTR_FMT\<close> and \<^verbatim>\<open>ATTR_AUTO_SET\<close>; the last holds the pair
  \<^verbatim>\<open>[new_val, delay]\<close>.
\<close>

record cfg =
  ATTR_POS :: "int option"
  ATTR_PATH :: "string option"
  ATTR_FMT :: "string option"
  ATTR_AUTO_SET :: "(pyval \<times> int) option"

definition pos_cfg :: "int \<Rightarrow> cfg" where
  "pos_cfg p = \<lparr>ATTR_POS = Some p, ATTR_PATH = None, ATTR_FMT = None, ATTR_AUTO_SET = None\<rparr>"

type_synonym info_values = "info_name \<rightharpoonup> pyval"
type_synonym info_values_updated = "info_name \<rightharpoonup> datetime"

text \<open>\<^verbatim>\<open>info_values.get(name)\<close>: \<^verbatim>\<open>None\<close> for a missing key.\<close>

definition iv_get :: "info_values \<Rightarrow> info_name \<Rightarrow> pyval" where
  "iv_get m k = (case m k of None \<Rightarrow> PNone | Some v \<Rightarrow> v)"

subsection \<open>Sub-devices\<close>

text \<open>
  The sub-device classes live in modules of their own (\<^verbatim>\<open>relay.py\<close>, \<^verbatim>\<open>switch.py\<close>,
  ...); a sub-device is represented by the constructor call that makes it: its class, its positional arguments after
  \<^verbatim>\<open>self\<close>, its keyword arguments, and the attribute \<^verbatim>\<open>lazy_load\<close> that
  \<^verbatim>\<open>_add_device\<close> sets.
\<close>

datatype dev_kind = Bulb | Relay | Switch | ExtTemp | ExtHumidity | PowerMeter | Roller
  | RGBW2W | RGBW2C | RGBWW | Dimmer | Sensor | Flood | DoorWindow | Duo | Vintage | Gas

datatype arg = ANone | AInt int | APos "int list" | AStr string | ABool bool

record device =
  kind :: dev_kind
  args :: "arg list"
  kwargs :: "(string \<times> arg) list"
  lazy_load :: bool

definition new_dev :: "dev_kind \<Rightarrow> arg list \<Rightarrow> device" where
  "new_dev k as = \<lparr>kind = k, args = as, kwargs = [], lazy_load = False\<rparr>"

definition new_dev_kw :: "dev_kind \<Rightarrow> arg list \<Rightarrow> (string \<times> arg) list \<Rightarrow> device" where
  "new_dev_kw k as kw = \<lparr>kind = k, args = as, kwargs = kw, lazy_load = False\<rparr>"

subsection \<open>Exceptions and calls on collaborators\<close>

datatype exn =
    KeyError string
  | TypeError
  | ObserverError nat

datatype outcome = Ok | Raised exn

datatype event =
    HttpGet string
  | CallbackInvoked nat
  | DevSetIp device string
  | DevUpdateInfoValuesCoap device
  | DevUpdateCoap device
  | DevUpdateInfoValues device
  | DevUpdateStatus device
  | DevRaiseUpdated device
  | ExceptionLog device
  | RegistryAdd device
  | RegistryRemove device
  | DevClose device

subsection \<open>The firmware catalogue (\<^verbatim>\<open>firmware.py\<close>)\<close>

text \<open>
  The catalogue maps a model identifier to a dict with the optional keys
  \<^verbatim>\<open>version\<close>, \<^verbatim>\<open>beta_ver\<close> and \<^verbatim>\<open>beta_url\<close>.
\<close>

type_synonym catalog = "(string \<times> (string \<times> string) list) list"

record firmware_manager =
  firmwares :: "catalog option"
  downloaded :: bool

definition fm_init :: firmware_manager where
  "fm_init = \<lparr>firmwares = None, downloaded = False\<rparr>"

subsection \<open>The block\<close>

record block =
  block_id :: string
  block_type :: string
  ip_addr :: string
  devices :: "device list"
  protocols :: "string list"
  cb_updated :: "nat list"
  unavailable_after_sec :: "int option"
  last_update_status_info :: "datetime option"
  reload :: bool
  last_updated :: "datetime option"
  sleep_device :: bool
  payload :: pyval
  settings :: "(string \<times> json) list option"
  exclude_info_values :: "info_name list"
  info_value_cfg :: "(info_name \<times> cfg) list option"
  info_values :: info_values
  info_values_updated :: info_values_updated
  firmware_mgr :: firmware_manager
  events :: "event list"

text \<open>
  What the collaborators answer during one call:
  \<^item> \<open>now\<close>: the clock, \<^verbatim>\<open>datetime.now()\<close>, read once per call;
  \<^item> \<open>http_response\<close>: the pair \<^verbatim>\<open>(success, res)\<close> of \<^verbatim>\<open>shelly_http_get\<close> per URL,
    where \<^verbatim>\<open>res\<close> is a parsed JSON object (a dict);
  \<^item> \<open>callback_raises\<close>: whether the observer callback with that number raises;
  \<^item> \<open>dev_update_raises\<close>, \<open>dev_notify_raises\<close>: whether
    \<^verbatim>\<open>dev.update_status_information\<close>, \<^verbatim>\<open>dev.raise_updated\<close> raise;
  \<^item> \<open>has_update_coap\<close>: \<^verbatim>\<open>hasattr(dev, 'update_coap')\<close>;
  \<^item> \<open>is_battery\<close>: \<^verbatim>\<open>type in SHELLY_TYPES and SHELLY_TYPES[type].get('battery')\<close>;
  \<^item> \<open>SENSOR_UNAVAILABLE_SEC\<close>, \<open>BLOCK_INFO_VALUES\<close>: constants of \<^verbatim>\<open>const.py\<close>;
  \<^item> \<open>update_info_value\<close>: \<^verbatim>\<open>Base._update_info_value(name, status, cfg)\<close>, acting
    on \<^verbatim>\<open>info_values\<close> and \<^verbatim>\<open>info_values_updated\<close>;
  \<^item> \<open>update_info_values_coap\<close>: \<^verbatim>\<open>Base._update_info_values_coap(payload)\<close>, likewise;
  \<^item> \<open>catalog_response\<close>: the \<^verbatim>\<open>data\<close> member of the downloaded catalogue, \<open>None\<close>
    when opening, reading or parsing it raises;
  \<^item> \<open>format_ver\<close>: \<^verbatim>\<open>FirmwareManager.format\<close>, which depends on the constant
    \<^verbatim>\<open>REGEX_VER\<close>.
\<close>

record env =
  now :: datetime
  http_response :: "string \<Rightarrow> bool \<times> (string \<times> json) list"
  callback_raises :: "nat \<Rightarrow> bool"
  dev_update_raises :: "device \<Rightarrow> bool"
  dev_notify_raises :: "device \<Rightarrow> bool"
  has_update_coap :: "device \<Rightarrow> bool"
  is_battery :: "string \<Rightarrow> bool"
  SENSOR_UNAVAILABLE_SEC :: int
  BLOCK_INFO_VALUES :: "(info_name \<times> cfg) list"
  update_info_value :: "info_name \<Rightarrow> (string \<times> json) list \<Rightarrow> cfg \<Rightarrow>
     info_values \<times> info_values_updated \<Rightarrow> info_values \<times> info_values_updated"
  update_info_values_coap :: "pyval \<Rightarrow>
     info_values \<times> info_values_updated \<Rightarrow> info_values \<times> info_values_updated"
  catalog_response :: "catalog option"
  format_ver :: "string \<Rightarrow> pyval"

definition log_event :: "event \<Rightarrow> block \<Rightarrow> block" where
  "log_event ev b = b\<lparr>events := events b @ [ev]\<rparr>"

subsection \<open>\<^verbatim>\<open>Block.available\<close>\<close>

definition available :: "env \<Rightarrow> block \<Rightarrow> bool" where
  "available e b =
     (case unavailable_after_sec b of
        None \<Rightarrow> True
      | Some sec \<Rightarrow>
          (case last_updated b of
             None \<Rightarrow> False
           | Some lu \<Rightarrow> total_seconds (now e - lu) \<le> of_int sec))"

subsection \<open>\<^verbatim>\<open>FirmwareManager\<close>\<close>

text \<open>\<^verbatim>\<open>_http_get\<close>: any exception is logged and the empty dict returned.\<close>

definition fm_http_get :: "env \<Rightarrow> catalog" where
  "fm_http_get e = (case catalog_response e of Some d \<Rightarrow> d | None \<Rightarrow> [])"

text \<open>The property \<^verbatim>\<open>_list_firmwares\<close>: the value it returns and the manager after it.\<close>

definition list_firmwares :: "env \<Rightarrow> firmware_manager \<Rightarrow> catalog option \<times> firmware_manager" where
  "list_firmwares e fm =
     (if downloaded fm then (firmwares fm, fm)
      else (case firmwares fm of
              None \<Rightarrow>
                (let fm1 = fm\<lparr>firmwares := Some (fm_http_get e)\<rparr>;
                     fm2 = fm1\<lparr>downloaded := True\<rparr>
                 in (firmwares fm2, fm2))
            | Some f \<Rightarrow> (Some f, fm)))"

text \<open>
  \<^verbatim>\<open>version\<close> and \<^verbatim>\<open>url\<close>. \<^verbatim>\<open>x in None\<close> raises \<^verbatim>\<open>TypeError\<close>, \<^verbatim>\<open>cfg[k]\<close> on a
  missing key raises \<^verbatim>\<open>KeyError\<close>, and a function that falls off its end returns
  \<^verbatim>\<open>None\<close>.
\<close>

definition version :: "env \<Rightarrow> string \<Rightarrow> bool \<Rightarrow> firmware_manager \<Rightarrow> (exn + pyval) \<times> firmware_manager" where
  "version e shelly_type beta fm =
     (case list_firmwares e fm of
        (None, fm1) \<Rightarrow> (Inl TypeError, fm1)
      | (Some fw, fm1) \<Rightarrow>
          (case map_of fw shelly_type of
             None \<Rightarrow> (Inr PNone, fm1)
           | Some cfg \<Rightarrow>
               (if beta \<and> map_of cfg ''beta_ver'' \<noteq> None
                then (case map_of cfg ''beta_ver'' of
                        None \<Rightarrow> (Inl (KeyError ''beta_ver''), fm1)
                      | Some v \<Rightarrow> (Inr (format_ver e v), fm1))
                else (case map_of cfg ''version'' of
                        None \<Rightarrow> (Inl (KeyError ''version''), fm1)
                      | Some v \<Rightarrow> (Inr (format_ver e v), fm1)))))"

definition url :: "env \<Rightarrow> string \<Rightarrow> bool \<Rightarrow> firmware_manager \<Rightarrow> (exn + string option) \<times> firmware_manager" where
  "url e shelly_type beta fm =
     (case list_firmwares e fm of
        (None, fm1) \<Rightarrow> (Inl TypeError, fm1)
      | (Some fw, fm1) \<Rightarrow>
          (case map_of fw shelly_type of
             None \<Rightarrow> (Inr None, fm1)
           | Some cfg \<Rightarrow>
               (if beta \<and> map_of cfg ''beta_ver'' \<noteq> None
                then (case map_of cfg ''beta_url'' of
                        None \<Rightarrow> (Inl (KeyError ''beta_url''), fm1)
                      | Some u \<Rightarrow> (Inr (Some u), fm1))
                else (Inr None, fm1))))"

subsection \<open>\<^verbatim>\<open>Block\<close>: transport, observers, the per-cycle loop\<close>

definition http_get :: "env \<Rightarrow> string \<Rightarrow> block \<Rightarrow> bool \<times> (string \<times> json) list \<times> block" where
  "http_get e u b =
     (let (success, res) = http_response e u in (success, res, log_event (HttpGet u) b))"

text \<open>\<^verbatim>\<open>raise_updated\<close>: the callbacks are called in order, outside any \<^verbatim>\<open>try\<close>.\<close>

fun run_callbacks :: "env \<Rightarrow> nat list \<Rightarrow> block \<Rightarrow> outcome \<times> block" where
  "run_callbacks e [] b = (Ok, b)"
| "run_callbacks e (callback # cbs) b =
     (let b1 = log_event (CallbackInvoked callback) b
      in if callback_raises e callback then (Raised (ObserverError callback), b1)
         else run_callbacks e cbs b1)"

definition raise_updated :: "env \<Rightarrow> block \<Rightarrow> outcome \<times> block" where
  "raise_updated e b = run_callbacks e (cb_updated b) b"

text \<open>\<^verbatim>\<open>loop\<close>: the body of the \<^verbatim>\<open>for\<close> over \<^verbatim>\<open>_info_value_cfg.items()\<close>.\<close>

fun loop_items :: "env \<Rightarrow> (info_name \<times> cfg) list \<Rightarrow> block \<Rightarrow> outcome \<times> block" where
  "loop_items e [] b = (Ok, b)"
| "loop_items e ((iv, c) # rest) b =
     (case ATTR_AUTO_SET c of
        None \<Rightarrow> loop_items e rest b
      | Some (new_val, delay) \<Rightarrow>
          (let val = iv_get (info_values b) iv in
           if \<not> py_eq val new_val then
             (case info_values_updated b iv of
                None \<Rightarrow> loop_items e rest b
              | Some time \<Rightarrow>
                  (let diff = now e - time in
                   if total_seconds diff > of_int delay then
                     (let b1 = b\<lparr>info_values := (info_values b)(iv \<mapsto> new_val)\<rparr>
                      in case raise_updated e b1 of
                           (Raised x, b2) \<Rightarrow> (Raised x, b2)
                         | (Ok, b2) \<Rightarrow> loop_items e rest b2)
                   else loop_items e rest b))
           else loop_items e rest b))"

definition loop :: "env \<Rightarrow> block \<Rightarrow> outcome \<times> block" where
  "loop e b =
     (case info_value_cfg b of
        None \<Rightarrow> (Ok, b)
      | Some cfgs \<Rightarrow> loop_items e cfgs b)"

subsection \<open>\<^verbatim>\<open>Block\<close>: firmware\<close>

definition fw_version :: "block \<Rightarrow> pyval" where
  "fw_version b = iv_get (info_values b) INFO_VALUE_FW_VERSION"

definition latest_fw_version :: "env \<Rightarrow> bool \<Rightarrow> block \<Rightarrow> (exn + pyval) \<times> block" where
  "latest_fw_version e beta b =
     (if beta then
        (let (r, fm1) = version e (block_type b) True (firmware_mgr b)
         in (r, b\<lparr>firmware_mgr := fm1\<rparr>))
      else (Inr (iv_get (info_values b) INFO_VALUE_LATEST_FIRMWARE_VERSION), b))"

text \<open>Python's \<^verbatim>\<open>x and y\<close>: \<^verbatim>\<open>x\<close> when it is falsy, else \<^verbatim>\<open>y\<close>.\<close>

definition py_and :: "pyval \<Rightarrow> pyval \<Rightarrow> pyval" where
  "py_and x y = (if truthy x then y else x)"

definition has_fw_update :: "env \<Rightarrow> bool \<Rightarrow> block \<Rightarrow> (exn + pyval) \<times> block" where
  "has_fw_update e beta b =
     (case latest_fw_version e beta b of
        (Inl x, b1) \<Rightarrow> (Inl x, b1)
      | (Inr latest, b1) \<Rightarrow>
          (let current = fw_version b1
           in (Inr (py_and latest (py_and current (PBool (\<not> py_eq latest current)))), b1)))"

definition update_firmware :: "env \<Rightarrow> bool \<Rightarrow> block \<Rightarrow> outcome \<times> block" where
  "update_firmware e beta b =
     (let (r, b1) =
            (if beta then
               (let (r, fm1) = url e (block_type b) False (firmware_mgr b)
                in (r, b\<lparr>firmware_mgr := fm1\<rparr>))
             else (Inr None, b))
      in case r of
           Inl x \<Rightarrow> (Raised x, b1)
         | Inr u \<Rightarrow>
             (if u \<noteq> None \<and> u \<noteq> Some []
              then (case http_get e (''/ota?url='' @ the u) b1 of (_, _, b2) \<Rightarrow> (Ok, b2))
              else (case http_get e ''/ota?update=1'' b1 of (_, _, b2) \<Rightarrow> (Ok, b2))))"

subsection \<open>\<^verbatim>\<open>Block\<close>: composing the sub-devices\<close>

definition poll_settings :: "env \<Rightarrow> block \<Rightarrow> block" where
  "poll_settings e b =
     (if is_battery e (block_type b) then b
      else (case http_get e ''/settings'' b of
              (success, res, b1) \<Rightarrow> if success then b1\<lparr>settings := Some res\<rparr> else b1))"

definition add_device :: "device \<Rightarrow> bool \<Rightarrow> block \<Rightarrow> block" where
  "add_device dev lazy b = b\<lparr>devices := devices b @ [dev\<lparr>lazy_load := lazy\<rparr>]\<rparr>"

text \<open>A run of \<^verbatim>\<open>self._add_device(dev, lazy_load)\<close> statements, first to last.\<close>

definition add_devices :: "(device \<times> bool) list \<Rightarrow> block \<Rightarrow> block" where
  "add_devices ds b = fold (\<lambda>(dev, lazy). add_device dev lazy) ds b"

text \<open>\<^verbatim>\<open>if self.settings:\<close> holds for a dict that is not empty; \<^verbatim>\<open>self.settings.get(k)\<close>.\<close>

definition settings_truthy :: "block \<Rightarrow> bool" where
  "settings_truthy b = (case settings b of None \<Rightarrow> False | Some d \<Rightarrow> d \<noteq> [])"

definition settings_get :: "block \<Rightarrow> string \<Rightarrow> json option" where
  "settings_get b k = (case settings b of None \<Rightarrow> None | Some d \<Rightarrow> map_of d k)"

text \<open>
  \<^verbatim>\<open>_setup\<close>, in two parts: \<open>setup_devices\<close> is its chain of \<^verbatim>\<open>if\<close>/\<^verbatim>\<open>elif\<close> on the
  model identifier, and \<open>block_setup\<close> is the whole method, which polls the settings
  first.
\<close>

definition setup_devices :: "env \<Rightarrow> block \<Rightarrow> block" where
  "setup_devices e b =
    (let t = block_type b in
     if t = ''SHBLB-1'' \<or> t = ''SHCL-255'' then
       add_devices [(new_dev Bulb [], False)] b
     else if t = ''SHSW-1'' \<or> t = ''SHSK-1'' then
       add_devices
         [(new_dev Relay [AInt 0, APos [112, 1101], ANone, APos [118, 2101]], False),
          (new_dev Switch [AInt 0, APos [118, 2101], AInt 2102, AInt 2103], False),
          (new_dev ExtTemp [AInt 0], True),
          (new_dev ExtTemp [AInt 1], True),
          (new_dev ExtTemp [AInt 2], True),
          (new_dev ExtHumidity [AInt 0], True)] b
     else if t = ''SHSW-PM'' then
       add_devices
         [(new_dev Relay [AInt 0, APos [112, 1101], APos [111, 4101], APos [118, 2101]], False),
          (new_dev PowerMeter [AInt 0, APos [111, 4101]], False),
          (new_dev Switch [AInt 0, APos [118, 2101], AInt 2102, AInt 2103], False),
          (new_dev ExtTemp [AInt 0], True),
          (new_dev ExtTemp [AInt 1], True),
          (new_dev ExtTemp [AInt 2], True),
          (new_dev ExtHumidity [AInt 0], True)] b
     else if t = ''SHSW-21'' then
       (if settings_truthy b then
          (let b1 =
             (if settings_get b ''mode'' = Some (JStr ''roller'') then
                add_devices [(new_dev Roller [], False)] b
              else
                add_devices
                  [(new_dev Relay [AInt 1, APos [112, 1101], APos [111, 4101], APos [118, 2101]], False),
                   (new_dev Relay [AInt 2, APos [122, 1201], APos [111, 4101], APos [128, 2201]], False)] b)
           in add_devices
                [(new_dev Switch [AInt 1, APos [118, 2101], AInt 2102, AInt 2103], False),
                 (new_dev Switch [AInt 2, APos [118, 2201], AInt 2202, AInt 2203], False),
                 (new_dev PowerMeter [AInt 0, APos [111, 4101]], False)] b1)
        else b)
     else if t = ''SHSW-25'' then
       (if settings_truthy b then
          (if settings_get b ''mode'' = Some (JStr ''roller'') then
             add_devices
               [(new_dev Roller [], False),
                (new_dev PowerMeter [AInt 1, APos [111, 121, 4101, 4102], APos [0, 1]], False)] b
           else
             add_devices
               [(new_dev Relay [AInt 1, APos [112, 1101], APos [111, 4101], APos [118, 2101]], False),
                (new_dev Relay [AInt 2, APos [122, 1201], APos [121, 4201], APos [128, 2201]], False),
                (new_dev PowerMeter [AInt 1, APos [111, 4101]], False),
                (new_dev PowerMeter [AInt 2, APos [121, 4201]], False),
                (new_dev Switch [AInt 1, APos [118, 2101], AInt 2102, AInt 2103], False),
                (new_dev Switch [AInt 2, APos [128, 2201], AInt 2202, AInt 2203], False)] b)
        else b)
     else if t = ''SHPLG-1'' \<or> t = ''SHPLG2-1'' \<or> t = ''SHPLG-S'' then
       add_devices
         [(new_dev Relay [AInt 0, APos [112, 1101], APos [111, 4101]], False),
          (new_dev PowerMeter [AInt 0, APos [111, 4101]], False)] b
     else if t = ''SHEM-3'' then
       add_devices
         [(new_dev Relay [AInt 0, APos [112, 1101]], False),
          (new_dev PowerMeter [AInt 1, APos [111, 4105], ANone, APos [116, 4108],
             APos [114, 4110], APos [115, 4109], AInt 4106], False),
          (new_dev PowerMeter [AInt 2, APos [121, 4205], ANone, APos [126, 4208],
             APos [124, 4210], APos [125, 4209], AInt 4206], False),
          (new_dev PowerMeter [AInt 3, APos [131, 4305], ANone, APos [136, 4308],
             APos [134, 4310], APos [135, 4309], AInt 4306], False)] b
     else if t = ''SH2LED-1'' then
       add_devices [(new_dev RGBW2W [AInt 0], False), (new_dev RGBW2W [AInt 1], False)] b
     else if t = ''SHEM'' then
       add_devices
         [(new_dev Relay [AInt 0, AInt 112], False),
          (new_dev_kw PowerMeter [AInt 1, APos [111]] [(''voltage_to_block'', ABool True)], False),
          (new_dev_kw PowerMeter [AInt 2, APos [121]] [(''voltage_to_block'', ABool True)], False)] b
     else if t = ''SHSW-44'' then
       add_devices
         (concat (map (\<lambda>channel.
            (let c10 = channel * 10;
                 c100 = channel * 100;
                 relay_pos = APos [112 + c10, 1101 + c100];
                 power_pos = APos [111 + c10, 4101 + c100];
                 switch_pos = APos [118 + c10, 2101 + c100]
             in [(new_dev Relay [AInt (channel + 1), relay_pos, power_pos, switch_pos], False),
                 (new_dev PowerMeter [AInt (channel + 1), power_pos], False),
                 (new_dev Switch [AInt (channel + 1), switch_pos], False)]))
            [0, 1, 2, 3])) b
     else if t = ''SHRGBWW-01'' then
       add_devices [(new_dev RGBWW [], False)] b
     else if t = ''SHDM-1'' \<or> t = ''SHDM-2'' then
       add_devices
         [(new_dev Dimmer [AInt 121, AInt 111], False),
          (new_dev Switch [AInt 1, AInt 131], False),
          (new_dev Switch [AInt 2, AInt 141], False),
          (new_dev PowerMeter [AInt 0, ANone], True)]
         (b\<lparr>info_value_cfg := Some [(INFO_VALUE_DEVICE_TEMP, pos_cfg 311)]\<rparr>)
     else if t = ''SHHT-1'' then
       add_devices
         [(new_dev Sensor [AInt 33, AStr ''temperature'', AStr ''tmp/tC''], False),
          (new_dev Sensor [AInt 44, AStr ''humidity'', AStr ''hum/value''], False)]
         (b\<lparr>sleep_device := True, unavailable_after_sec := Some (SENSOR_UNAVAILABLE_SEC e)\<rparr>)
     else if t = ''SHRGBW2'' then
       (let b1 =
          (if settings_truthy b then
             (if (case settings_get b ''mode'' of None \<Rightarrow> True | Some m \<Rightarrow> m = JStr ''color'') then
                add_devices
                  [(new_dev RGBW2C [], False),
                   (new_dev PowerMeter [AInt 0, APos [211]], False)] b
              else
                add_devices
                  (concat (map (\<lambda>channel.
                     [(new_dev RGBW2W [AInt (channel + 1)], False),
                      (new_dev PowerMeter [AInt (channel + 1), APos [211 + channel * 10]], False)])
                     [0, 1, 2, 3])) b)
           else b)
        in add_devices [(new_dev Switch [AInt 0, AInt 118], False)] b1)
     else if t = ''SHWT-1'' then
       add_devices
         [(new_dev Flood [], False),
          (new_dev Sensor [AInt 33, AStr ''temperature'', AStr ''tmp/tC''], False)]
         (b\<lparr>sleep_device := True, unavailable_after_sec := Some (SENSOR_UNAVAILABLE_SEC e)\<rparr>)
     else if t = ''SHDW-1'' then
       add_devices [(new_dev DoorWindow [AInt 55], False)]
         (b\<lparr>sleep_device := True,
             unavailable_after_sec := Some (SENSOR_UNAVAILABLE_SEC e),
             info_value_cfg := Some
               [(INFO_VALUE_BATTERY, pos_cfg 77),
                (INFO_VALUE_TILT, pos_cfg 88),
                (INFO_VALUE_VIBRATION, (pos_cfg 99)\<lparr>ATTR_AUTO_SET := Some (PInt 0, 60)\<rparr>),
                (INFO_VALUE_ILLUMINANCE, pos_cfg 66)]\<rparr>)
     else if t = ''SHDW-2'' then
       add_devices [(new_dev DoorWindow [AInt 3108], False)]
         (b\<lparr>sleep_device := True,
             exclude_info_values := exclude_info_values b @ [INFO_VALUE_DEVICE_TEMP],
             unavailable_after_sec := Some (SENSOR_UNAVAILABLE_SEC e),
             info_value_cfg := Some
               [(INFO_VALUE_BATTERY, pos_cfg 3111),
                (INFO_VALUE_TILT, pos_cfg 3109),
                (INFO_VALUE_VIBRATION, (pos_cfg 6110)\<lparr>ATTR_AUTO_SET := Some (PInt 0, 60)\<rparr>),
                (INFO_VALUE_TEMP, pos_cfg 3101),
                (INFO_VALUE_ILLUMINANCE, pos_cfg 3106)]\<rparr>)
     else if t = ''SHBDUO-1'' then
       add_devices
         [(new_dev Duo [], False),
          (new_dev_kw PowerMeter [AInt 0, APos [213]] [(''tot_pos'', AInt 214)], False)] b
     else if t = ''SHVIN-1'' then
       add_devices
         [(new_dev Vintage [], False),
          (new_dev_kw PowerMeter [AInt 0, APos [213]] [(''tot_pos'', AInt 214)], False)] b
     else if t = ''SHBTN-1'' then
       add_devices [(new_dev Switch [AInt 0, AInt 118, AInt 119, AInt 120, ABool True], False)] b
     else if t = ''SHIX3-1'' then
       add_devices
         [(new_dev Switch [AInt 1, AInt 118, AInt 119, AInt 120], False),
          (new_dev Switch [AInt 2, AInt 128, AInt 129, AInt 130], False),
          (new_dev Switch [AInt 3, AInt 138, AInt 139, AInt 140], False)] b
     else if t = ''SHGS-1'' then
       add_devices [(new_dev Gas [AInt 119], False)]
         (b\<lparr>info_value_cfg := Some
               [(INFO_VALUE_PPM, pos_cfg 122), (INFO_VALUE_SENSOR, pos_cfg 118)]\<rparr>)
     else if t = ''SHAIR-1'' then
       add_devices
         [(new_dev Relay [AInt 0, AInt 112, AInt 111, AInt 118], False),
          (new_dev PowerMeter [AInt 0, APos [111]], False),
          (new_dev Switch [AInt 0, AInt 118], False)]
         (b\<lparr>info_value_cfg := Some
               [(INFO_VALUE_TEMP, (pos_cfg 119)\<lparr>ATTR_PATH := Some ''ext_temperatures/0''\<rparr>),
                (INFO_VALUE_TOTAL_WORK_TIME,
                   (pos_cfg 121)\<lparr>ATTR_PATH := Some ''total_work_time''\<rparr>)]\<rparr>)
     else b)"

definition block_setup :: "env \<Rightarrow> block \<Rightarrow> block" where
  "block_setup e b0 = setup_devices e (poll_settings e b0)"

text \<open>
  \<^verbatim>\<open>Block.__init__\<close>: \<open>Block_attrs\<close> is the block after the assignments of the
  constructor (the attributes of \<^verbatim>\<open>Base.__init__\<close> included), before \<^verbatim>\<open>self._setup()\<close>;
  the firmware manager is the process-wide singleton reached through the parent.
\<close>

definition Block_attrs :: "firmware_manager \<Rightarrow> string \<Rightarrow> string \<Rightarrow> string \<Rightarrow> block" where
  "Block_attrs fm bid btype ip =
       \<lparr>block_id = bid, block_type = btype, ip_addr = ip, devices = [], protocols = [],
        cb_updated = [], unavailable_after_sec = None, last_update_status_info = None,
        reload = False, last_updated = None, sleep_device = False, payload = PNone,
        settings = None, exclude_info_values = [], info_value_cfg = None,
        info_values = Map.empty, info_values_updated = Map.empty,
        firmware_mgr = fm, events = []\<rparr>"

definition Block_init :: "env \<Rightarrow> firmware_manager \<Rightarrow> string \<Rightarrow> string \<Rightarrow> string \<Rightarrow> block" where
  "Block_init e fm bid btype ip = block_setup e (Block_attrs fm bid btype ip)"

subsection \<open>\<^verbatim>\<open>Block\<close>: reload and the push payload\<close>

definition reload_devices :: "env \<Rightarrow> block \<Rightarrow> block" where
  "reload_devices e b =
     (let b1 = fold (\<lambda>device b. log_event (DevClose device) (log_event (RegistryRemove device) b))
                 (devices b) b;
          b2 = b1\<lparr>devices := []\<rparr>
      in block_setup e b2)"

definition dev_coap :: "env \<Rightarrow> device \<Rightarrow> block \<Rightarrow> block" where
  "dev_coap e dev b =
     (let b1 = log_event (DevUpdateInfoValuesCoap dev) b
      in if has_update_coap e dev then log_event (DevUpdateCoap dev) b1 else b1)"

definition apply_info :: "(info_values \<times> info_values_updated \<Rightarrow> info_values \<times> info_values_updated)
     \<Rightarrow> block \<Rightarrow> block" where
  "apply_info f b =
     (case f (info_values b, info_values_updated b) of
        (vs, ts) \<Rightarrow> b\<lparr>info_values := vs, info_values_updated := ts\<rparr>)"

text \<open>The calls that \<open>dev_coap\<close> makes on a sub-device, as a list.\<close>

definition coap_events :: "env \<Rightarrow> device \<Rightarrow> event list" where
  "coap_events e dev =
     DevUpdateInfoValuesCoap dev # (if has_update_coap e dev then [DevUpdateCoap dev] else [])"

definition update_coap :: "env \<Rightarrow> pyval \<Rightarrow> string \<Rightarrow> block \<Rightarrow> block" where
  "update_coap e pl ip b0 =
     (let b1 = b0\<lparr>ip_addr := ip\<rparr>;
          b2 = b1\<lparr>last_updated := Some (now e)\<rparr>;
          b3 = apply_info (update_info_values_coap e pl) b2;
          b4 = fold (\<lambda>dev b. dev_coap e dev (log_event (DevSetIp dev ip) b)) (devices b3) b3
      in if reload b4 then
           (let b5 = reload_devices e b4;
                b6 = fold (\<lambda>dev b. log_event (RegistryAdd dev) (dev_coap e dev b)) (devices b5) b5
            in b6\<lparr>reload := False\<rparr>)
         else b4)"

subsection \<open>\<^verbatim>\<open>Block.update_status_information\<close>\<close>

text \<open>The \<^verbatim>\<open>for dev in self.devices\<close> loop: whatever is raised inside the \<^verbatim>\<open>try\<close> is
  logged and the loop goes on with the next sub-device.\<close>

fun update_devices :: "env \<Rightarrow> device list \<Rightarrow> block \<Rightarrow> block" where
  "update_devices e [] b = b"
| "update_devices e (dev # devs) b =
     (let b1 = log_event (DevUpdateInfoValues dev) b;
          b2 = log_event (DevUpdateStatus dev) b1
      in if dev_update_raises e dev then update_devices e devs (log_event (ExceptionLog dev) b2)
         else (let b3 = log_event (DevRaiseUpdated dev) b2
               in if dev_notify_raises e dev
                  then update_devices e devs (log_event (ExceptionLog dev) b3)
                  else update_devices e devs b3))"

definition cloud_status :: "block \<Rightarrow> pyval" where
  "cloud_status b =
     (if truthy (iv_get (info_values b) INFO_VALUE_CLOUD_ENABLED) then
        (if truthy (iv_get (info_values b) INFO_VALUE_CLOUD_CONNECTED) then PStr ''connected''
         else PStr ''disconnected'')
      else PStr ''disabled'')"

definition set_info :: "info_name \<Rightarrow> pyval \<Rightarrow> block \<Rightarrow> block" where
  "set_info k v b = b\<lparr>info_values := (info_values b)(k \<mapsto> v)\<rparr>"

definition update_status_information :: "env \<Rightarrow> block \<Rightarrow> outcome \<times> block" where
  "update_status_information e b0 =
     (let b1 = b0\<lparr>last_update_status_info := Some (now e)\<rparr> in
      case http_get e ''/status'' b1 of
        (success, status, b2) \<Rightarrow>
          if \<not> success \<or> status = [] then (Ok, b2)
          else
            (let b3 = (if ''poll'' \<notin> set (protocols b2)
                       then b2\<lparr>protocols := protocols b2 @ [''poll'']\<rparr> else b2);
                 b4 = b3\<lparr>last_updated := Some (now e)\<rparr>;
                 b5 = fold (\<lambda>(name, c) b.
                              if name \<in> set (exclude_info_values b) then b
                              else apply_info (update_info_value e name status c) b)
                        (BLOCK_INFO_VALUES e) b4;
                 b6 = (case info_value_cfg b5 of
                         None \<Rightarrow> b5
                       | Some cfgs \<Rightarrow>
                           fold (\<lambda>(name, c). apply_info (update_info_value e name status c))
                             cfgs b5);
                 b7 = (if truthy (payload b6) then set_info INFO_VALUE_PAYLOAD (payload b6) b6
                       else b6);
                 b8 = set_info INFO_VALUE_CLOUD_STATUS (cloud_status b7) b7
             in case latest_fw_version e True b8 of
                  (Inl x, b9) \<Rightarrow> (Raised x, b9)
                | (Inr v, b9) \<Rightarrow>
                    (let b10 = set_info INFO_VALUE_LATEST_BETA_FW_VERSION v b9
                     in case raise_updated e b10 of
                          (Raised x, b11) \<Rightarrow> (Raised x, b11)
                        | (Ok, b11) \<Rightarrow> (Ok, update_devices e (devices b11) b11))))"

text \<open>
  The info values and their timestamps as the extraction rules of one cycle leave them:
  the rules of \<^verbatim>\<open>BLOCK_INFO_VALUES\<close> first, those with an excluded name skipped, then
  the block's own rules of \<^verbatim>\<open>_info_value_cfg\<close>, each rule applied to the status by
  \<^verbatim>\<open>_update_info_value\<close>. It is what lines 135 to 142 of \<^verbatim>\<open>update_status_information\<close>
  compute, written on the value store alone.
\<close>

definition extracted :: "env \<Rightarrow> (string \<times> json) list \<Rightarrow> block \<Rightarrow> info_values \<times> info_values_updated" where
  "extracted e status b =
     (let s1 = fold (\<lambda>(name, c) s.
                      if name \<in> set (exclude_info_values b) then s
                      else update_info_value e name status c s)
                 (BLOCK_INFO_VALUES e) (info_values b, info_values_updated b)
      in case info_value_cfg b of
           None \<Rightarrow> s1
         | Some cfgs \<Rightarrow> fold (\<lambda>(name, c). update_info_value e name status c) cfgs s1)"

subsection \<open>Test fixtures\<close>

text \<open>
  An environment in which the clock reads 1000 s, every request fails, nothing raises
  and the sensor timeout is 600 s; and blocks built by \<open>Block_init\<close> in it.
\<close>

definition env0 :: env where
  "env0 = \<lparr>now = 1000000000,
            http_response = (\<lambda>u. (False, [])),
            callback_raises = (\<lambda>c. False),
            dev_update_raises = (\<lambda>d. False),
            dev_notify_raises = (\<lambda>d. False),
            has_update_coap = (\<lambda>d. kind d = Relay),
            is_battery = (\<lambda>t. t = ''SHHT-1'' \<or> t = ''SHWT-1'' \<or> t = ''SHDW-1'' \<or> t = ''SHDW-2''),
            SENSOR_UNAVAILABLE_SEC = 600,
            BLOCK_INFO_VALUES = [],
            update_info_value = (\<lambda>name status c s. s),
            update_info_values_coap = (\<lambda>pl s. s),
            catalog_response = None,
            format_ver = PStr\<rparr>"

definition sensor_block :: block where
  "sensor_block = Block_init env0 fm_init ''A1B2C3'' ''SHHT-1'' ''192.168.1.20''"

definition plug_block :: block where
  "plug_block = Block_init env0 fm_init ''D4E5F6'' ''SHPLG-S'' ''192.168.1.21''"

text \<open>
  An environment in which \<^verbatim>\<open>/status\<close> is answered, with an extractor for the fixtures
  that copies a boolean or a string found under the rule's path.
\<close>

definition path_cfg :: "string \<Rightarrow> cfg" where
  "path_cfg p = \<lparr>ATTR_POS = None, ATTR_PATH = Some p, ATTR_FMT = None, ATTR_AUTO_SET = None\<rparr>"

definition fixture_extract :: "info_name \<Rightarrow> (string \<times> json) list \<Rightarrow> cfg \<Rightarrow>
     info_values \<times> info_values_updated \<Rightarrow> info_values \<times> info_values_updated" where
  "fixture_extract name status c s =
     (case ATTR_PATH c of
        None \<Rightarrow> s
      | Some p \<Rightarrow>
          (case map_of status p of
             Some (JBool v) \<Rightarrow> ((fst s)(name \<mapsto> PBool v), (snd s)(name \<mapsto> 1000000000))
           | Some (JStr v) \<Rightarrow> ((fst s)(name \<mapsto> PStr v), (snd s)(name \<mapsto> 1000000000))
           | _ \<Rightarrow> s))"

definition status1 :: "(string \<times> json) list" where
  "status1 = [(''enabled'', JBool False), (''connected'', JBool True)]"

definition env1 :: env where
  "env1 = env0\<lparr>http_response := (\<lambda>u. if u = ''/status'' then (True, status1) else (False, [])),
               BLOCK_INFO_VALUES :=
                 [(INFO_VALUE_CLOUD_ENABLED, path_cfg ''enabled''),
                  (INFO_VALUE_CLOUD_CONNECTED, path_cfg ''connected'')],
               update_info_value := fixture_extract\<rparr>"

text \<open>The status of a device that reports its cloud flags as \<open>en\<close> and \<open>co\<close>, and the
  environment in which \<^verbatim>\<open>/status\<close> is answered with it.\<close>

definition cloud_report :: "bool \<Rightarrow> bool \<Rightarrow> (string \<times> json) list" where
  "cloud_report en co = [(''enabled'', JBool en), (''connected'', JBool co)]"

definition cloud_env :: "bool \<Rightarrow> bool \<Rightarrow> env" where
  "cloud_env en co =
     env0\<lparr>http_response := (\<lambda>u. if u = ''/status'' then (True, cloud_report en co) else (False, [])),
          BLOCK_INFO_VALUES :=
            [(INFO_VALUE_CLOUD_ENABLED, path_cfg ''enabled''),
             (INFO_VALUE_CLOUD_CONNECTED, path_cfg ''connected'')],
          update_info_value := fixture_extract\<rparr>"

text \<open>A block with two observers, and environments in which the first observer, or
  the update of every relay, raises.\<close>

definition observed_block :: block where
  "observed_block = plug_block\<lparr>cb_updated := [0, 1]\<rparr>"

definition env_raise :: env where
  "env_raise = env1\<lparr>callback_raises := (\<lambda>c. c = 0)\<rparr>"

definition env_devfail :: env where
  "env_devfail = env1\<lparr>dev_update_raises := (\<lambda>d. kind d = Relay)\<rparr>"

text \<open>A door/window sensor whose vibration flag was raised at time \<open>T\<close>, with one observer.\<close>

definition vib_block :: "datetime \<Rightarrow> block" where
  "vib_block T = (Block_init env0 fm_init ''0A0B0C'' ''SHDW-2'' ''192.168.1.30'')
     \<lparr>cb_updated := [0],
      info_values := [INFO_VALUE_VIBRATION \<mapsto> PInt 1],
      info_values_updated := [INFO_VALUE_VIBRATION \<mapsto> T]\<rparr>"

text \<open>A plug that knows its firmware version and the latest one reported by the device.\<close>

definition fw_block :: "pyval \<Rightarrow> pyval \<Rightarrow> block" where
  "fw_block current latest =
     plug_block\<lparr>info_values := [INFO_VALUE_FW_VERSION \<mapsto> current,
                                  INFO_VALUE_LATEST_FIRMWARE_VERSION \<mapsto> latest]\<rparr>"

text \<open>An environment whose catalogue offers a beta firmware for the plug.\<close>

definition env_catalog :: env where
  "env_catalog = env0\<lparr>catalog_response := Some
     [(''SHPLG-S'', [(''version'', ''v1.8.0''), (''beta_ver'', ''v1.9.0-rc1''),
                     (''beta_url'', ''http://repo/SHPLG-S_beta.zip'')])]\<rparr>"

text \<open>A Shelly 2.5 in relay mode that is asked to reload while the device, by now,
  answers \<^verbatim>\<open>/settings\<close> with roller mode.\<close>

definition env_roller :: env where
  "env_roller = env0\<lparr>http_response :=
     (\<lambda>u. if u = ''/settings'' then (True, [(''mode'', JStr ''roller'')]) else (False, []))\<rparr>"

definition env_relay :: env where
  "env_relay = env0\<lparr>http_response :=
     (\<lambda>u. if u = ''/settings'' then (True, [(''mode'', JStr ''relay'')]) else (False, []))\<rparr>"

definition shelly25 :: block where
  "shelly25 = (Block_init env_relay fm_init ''C0FFEE'' ''SHSW-25'' ''192.168.1.40'')
     \<lparr>reload := True\<rparr>"

text \<open>The plug after a first beta query, made while the catalogue could not be fetched.\<close>

definition stale_block :: block where
  "stale_block = snd (has_fw_update env0 True (fw_block (PStr ''1.2'') (PStr ''1.3'')))"

section \<open>Properties\<close>

subsection \<open>The fixtures, evaluated\<close>

lemma plug_block_eq:
  "plug_block =
     \<lparr>block_id = ''D4E5F6'', block_type = ''SHPLG-S'', ip_addr = ''192.168.1.21'',
      devices = [new_dev Relay [AInt 0, APos [112, 1101], APos [111, 4101]],
                 new_dev PowerMeter [AInt 0, APos [111, 4101]]],
      protocols = [], cb_updated = [], unavailable_after_sec = None,
      last_update_status_info = None, reload = False, last_updated = None,
      sleep_device = False, payload = PNone, settings = None, exclude_info_values = [],
      info_value_cfg = None, info_values = Map.empty, info_values_updated = Map.empty,
      firmware_mgr = fm_init, events = [HttpGet ''/settings'']\<rparr>"
  by (simp add: plug_block_def Block_init_def Block_attrs_def block_setup_def setup_devices_def
        poll_settings_def http_get_def add_devices_def add_device_def log_event_def env0_def
        new_dev_def)

lemma vib_block_fields:
  "info_value_cfg (vib_block T) = Some
               [(INFO_VALUE_BATTERY, pos_cfg 3111),
                (INFO_VALUE_TILT, pos_cfg 3109),
                (INFO_VALUE_VIBRATION, (pos_cfg 6110)\<lparr>ATTR_AUTO_SET := Some (PInt 0, 60)\<rparr>),
                (INFO_VALUE_TEMP, pos_cfg 3101),
                (INFO_VALUE_ILLUMINANCE, pos_cfg 3106)]"
  "cb_updated (vib_block T) = [0]"
  "info_values (vib_block T) = [INFO_VALUE_VIBRATION \<mapsto> PInt 1]"
  "info_values_updated (vib_block T) = [INFO_VALUE_VIBRATION \<mapsto> T]"
  "events (vib_block T) = []"
  by (simp_all add: vib_block_def Block_init_def Block_attrs_def block_setup_def setup_devices_def
        poll_settings_def add_devices_def add_device_def env0_def)

subsection \<open>Frames: what the observer and sub-device loops leave alone\<close>

lemma log_event_frame: "log_event ev b = b\<lparr>events := events b @ [ev]\<rparr>"
  by (simp add: log_event_def)

lemma run_callbacks_frame:
  "\<exists>evs. snd (run_callbacks e cbs b) = b\<lparr>events := events b @ evs\<rparr>"
proof (induction cbs arbitrary: b)
  case Nil
  have "b = b\<lparr>events := events b @ []\<rparr>" by simp
  then show ?case by (metis run_callbacks.simps(1) snd_conv)
next
  case (Cons c cbs)
  show ?case
  proof (cases "callback_raises e c")
    case True
    then show ?thesis by (auto simp: log_event_def Let_def)
  next
    case False
    from Cons.IH [of "log_event (CallbackInvoked c) b"] obtain evs where
      "snd (run_callbacks e cbs (log_event (CallbackInvoked c) b))
         = (log_event (CallbackInvoked c) b)\<lparr>events := events (log_event (CallbackInvoked c) b) @ evs\<rparr>"
      by blast
    then have "snd (run_callbacks e (c # cbs) b) = b\<lparr>events := events b @ (CallbackInvoked c # evs)\<rparr>"
      using False by (simp add: log_event_def Let_def)
    then show ?thesis by blast
  qed
qed

lemma update_devices_frame:
  "\<exists>evs. update_devices e devs b = b\<lparr>events := events b @ evs\<rparr>"
proof (induction devs arbitrary: b)
  case Nil
  have "b = b\<lparr>events := events b @ []\<rparr>" by simp
  then show ?case by (metis update_devices.simps(1))
next
  case (Cons d devs)
  note ih = Cons.IH
  show ?case
  proof (cases "dev_update_raises e d")
    case True
    from ih [of "log_event (ExceptionLog d) (log_event (DevUpdateStatus d) (log_event (DevUpdateInfoValues d) b))"]
    obtain evs where "update_devices e devs (log_event (ExceptionLog d) (log_event (DevUpdateStatus d) (log_event (DevUpdateInfoValues d) b)))
       = b\<lparr>events := events b @ ([DevUpdateInfoValues d, DevUpdateStatus d, ExceptionLog d] @ evs)\<rparr>"
      by (auto simp: log_event_def)
    then show ?thesis using True by (simp add: Let_def) blast
  next
    case False
    show ?thesis
    proof (cases "dev_notify_raises e d")
      case True
      from ih [of "log_event (ExceptionLog d) (log_event (DevRaiseUpdated d) (log_event (DevUpdateStatus d) (log_event (DevUpdateInfoValues d) b)))"]
      obtain evs where "update_devices e devs (log_event (ExceptionLog d) (log_event (DevRaiseUpdated d) (log_event (DevUpdateStatus d) (log_event (DevUpdateInfoValues d) b))))
         = b\<lparr>events := events b @ ([DevUpdateInfoValues d, DevUpdateStatus d, DevRaiseUpdated d, ExceptionLog d] @ evs)\<rparr>"
        by (auto simp: log_event_def)
      then show ?thesis using True \<open>\<not> dev_update_raises e d\<close> by (simp add: Let_def) blast
    next
      case F2: False
      from ih [of "(log_event (DevRaiseUpdated d) (log_event (DevUpdateStatus d) (log_event (DevUpdateInfoValues d) b)))"]
      obtain evs where "update_devices e devs ((log_event (DevRaiseUpdated d) (log_event (DevUpdateStatus d) (log_event (DevUpdateInfoValues d) b))))
         = b\<lparr>events := events b @ ([DevUpdateInfoValues d, DevUpdateStatus d, DevRaiseUpdated d] @ evs)\<rparr>"
        by (auto simp: log_event_def)
      then show ?thesis using F2 False by (simp add: Let_def) blast
    qed
  qed
qed

lemma run_callbacks_info_values:
  "info_values (snd (run_callbacks e cbs b)) = info_values b"
proof -
  obtain evs where "snd (run_callbacks e cbs b) = b\<lparr>events := events b @ evs\<rparr>"
    using run_callbacks_frame by blast
  then show ?thesis by simp
qed

lemma update_devices_info_values:
  "info_values (update_devices e devs b) = info_values b"
proof -
  obtain evs where "update_devices e devs b = b\<lparr>events := events b @ evs\<rparr>"
    using update_devices_frame by blast
  then show ?thesis by simp
qed

lemma latest_fw_version_info_values:
  "info_values (snd (latest_fw_version e beta b)) = info_values b"
  by (simp add: latest_fw_version_def split: prod.splits)


lemma usi_tail_info_values:
  assumes "k \<noteq> INFO_VALUE_LATEST_BETA_FW_VERSION"
  shows "info_values (snd (case latest_fw_version e True b8 of
                  (Inl x, b9) \<Rightarrow> (Raised x, b9)
                | (Inr v, b9) \<Rightarrow>
                    (let b10 = set_info INFO_VALUE_LATEST_BETA_FW_VERSION v b9
                     in case raise_updated e b10 of
                          (Raised x, b11) \<Rightarrow> (Raised x, b11)
                        | (Ok, b11) \<Rightarrow> (Ok, update_devices e (devices b11) b11)))) k
         = info_values b8 k"
proof -
  obtain r b9 where l: "latest_fw_version e True b8 = (r, b9)" by (cases "latest_fw_version e True b8")
  have i9: "info_values b9 = info_values b8"
    using latest_fw_version_info_values [of e True b8] l by simp
  show ?thesis
  proof (cases r)
    case (Inl x)
    then show ?thesis using l i9 by simp
  next
    case (Inr v)
    let ?b10 = "set_info INFO_VALUE_LATEST_BETA_FW_VERSION v b9"
    obtain oc b11 where ru: "raise_updated e ?b10 = (oc, b11)" by (cases "raise_updated e ?b10")
    have i11: "info_values b11 = info_values ?b10"
      using run_callbacks_info_values [of e "cb_updated ?b10" ?b10] ru by (simp add: raise_updated_def)
    have i10: "info_values ?b10 k = info_values b8 k"
      using assms i9 by (simp add: set_info_def)
    show ?thesis
      using l Inr ru i11 i10 by (cases oc) (simp_all add: update_devices_info_values)
  qed
qed

lemma apply_info_eq:
  "apply_info f b =
     b\<lparr>info_values := fst (f (info_values b, info_values_updated b)),
       info_values_updated := snd (f (info_values b, info_values_updated b))\<rparr>"
  by (simp add: apply_info_def split: prod.splits)

lemma fold_block_rules:
  "fold (\<lambda>(name, c) b.
           if name \<in> set (exclude_info_values b) then b
           else apply_info (update_info_value e name status c) b) rules b
   = b\<lparr>info_values := fst (fold (\<lambda>(name, c) s.
                                   if name \<in> set (exclude_info_values b) then s
                                   else update_info_value e name status c s)
                              rules (info_values b, info_values_updated b)),
       info_values_updated := snd (fold (\<lambda>(name, c) s.
                                   if name \<in> set (exclude_info_values b) then s
                                   else update_info_value e name status c s)
                              rules (info_values b, info_values_updated b))\<rparr>"
  by (induction rules arbitrary: b) (auto simp: apply_info_eq)

lemma fold_own_rules:
  "fold (\<lambda>(name, c). apply_info (update_info_value e name status c)) rules b
   = b\<lparr>info_values := fst (fold (\<lambda>(name, c). update_info_value e name status c)
                              rules (info_values b, info_values_updated b)),
       info_values_updated := snd (fold (\<lambda>(name, c). update_info_value e name status c)
                              rules (info_values b, info_values_updated b))\<rparr>"
  by (induction rules arbitrary: b) (auto simp: apply_info_eq)

lemma cloud_status_lemma:
  assumes "http_response e ''/status'' = (True, status)" and "status \<noteq> []"
  shows "info_values (snd (update_status_information e b)) INFO_VALUE_CLOUD_ENABLED
           = fst (extracted e status b) INFO_VALUE_CLOUD_ENABLED
       \<and> info_values (snd (update_status_information e b)) INFO_VALUE_CLOUD_CONNECTED
           = fst (extracted e status b) INFO_VALUE_CLOUD_CONNECTED
       \<and> info_values (snd (update_status_information e b)) INFO_VALUE_CLOUD_STATUS
           = Some (if \<not> truthy (iv_get (fst (extracted e status b)) INFO_VALUE_CLOUD_ENABLED)
                   then PStr ''disabled''
                   else if truthy (iv_get (fst (extracted e status b)) INFO_VALUE_CLOUD_CONNECTED)
                   then PStr ''connected'' else PStr ''disconnected'')"
proof -
  define b2 where "b2 = log_event (HttpGet ''/status'') (b\<lparr>last_update_status_info := Some (now e)\<rparr>)"
  define b3 where "b3 = (if ''poll'' \<notin> set (protocols b2)
                       then b2\<lparr>protocols := protocols b2 @ [''poll'']\<rparr> else b2)"
  define b4 where "b4 = b3\<lparr>last_updated := Some (now e)\<rparr>"
  define b5 where "b5 = fold (\<lambda>(name, c) b.
                              if name \<in> set (exclude_info_values b) then b
                              else apply_info (update_info_value e name status c) b)
                        (BLOCK_INFO_VALUES e) b4"
  define b6 where "b6 = (case info_value_cfg b5 of
                         None \<Rightarrow> b5
                       | Some cfgs \<Rightarrow>
                           fold (\<lambda>(name, c). apply_info (update_info_value e name status c))
                             cfgs b5)"
  define b7 where "b7 = (if truthy (payload b6) then set_info INFO_VALUE_PAYLOAD (payload b6) b6
                       else b6)"
  define b8 where "b8 = set_info INFO_VALUE_CLOUD_STATUS (cloud_status b7) b7"
  have eq: "update_status_information e b =
           (case latest_fw_version e True b8 of
                  (Inl x, b9) \<Rightarrow> (Raised x, b9)
                | (Inr v, b9) \<Rightarrow>
                    (let b10 = set_info INFO_VALUE_LATEST_BETA_FW_VERSION v b9
                     in case raise_updated e b10 of
                          (Raised x, b11) \<Rightarrow> (Raised x, b11)
                        | (Ok, b11) \<Rightarrow> (Ok, update_devices e (devices b11) b11)))"
    unfolding update_status_information_def http_get_def b8_def b7_def b6_def b5_def b4_def
      b3_def b2_def
    by (simp only: assms Let_def prod.case simp_thms if_False)
  have f4: "info_values b4 = info_values b" "info_values_updated b4 = info_values_updated b"
    "exclude_info_values b4 = exclude_info_values b" "info_value_cfg b4 = info_value_cfg b"
    by (simp_all add: b4_def b3_def b2_def log_event_def)
  have f5: "info_value_cfg b5 = info_value_cfg b"
    unfolding b5_def fold_block_rules by (simp add: f4)
  have i6: "info_values b6 = fst (extracted e status b)"
    unfolding b6_def f5 b5_def extracted_def Let_def
    by (cases "info_value_cfg b") (simp_all add: fold_block_rules fold_own_rules f4)
  have i7: "info_values b7 INFO_VALUE_CLOUD_ENABLED = fst (extracted e status b) INFO_VALUE_CLOUD_ENABLED"
    "info_values b7 INFO_VALUE_CLOUD_CONNECTED = fst (extracted e status b) INFO_VALUE_CLOUD_CONNECTED"
    by (simp_all add: b7_def set_info_def i6)
  have k: "\<And>k. k \<noteq> INFO_VALUE_LATEST_BETA_FW_VERSION \<Longrightarrow>
     info_values (snd (update_status_information e b)) k = info_values b8 k"
    unfolding eq by (rule usi_tail_info_values)
  have s8: "info_values b8 INFO_VALUE_CLOUD_STATUS = Some (cloud_status b7)"
    and e8: "info_values b8 INFO_VALUE_CLOUD_ENABLED = info_values b7 INFO_VALUE_CLOUD_ENABLED"
    and c8: "info_values b8 INFO_VALUE_CLOUD_CONNECTED = info_values b7 INFO_VALUE_CLOUD_CONNECTED"
    by (simp_all add: b8_def set_info_def)
  have cs: "cloud_status b7 =
     (if \<not> truthy (iv_get (fst (extracted e status b)) INFO_VALUE_CLOUD_ENABLED)
                   then PStr ''disabled''
                   else if truthy (iv_get (fst (extracted e status b)) INFO_VALUE_CLOUD_CONNECTED)
                   then PStr ''connected'' else PStr ''disconnected'')"
    by (simp add: cloud_status_def iv_get_def i7)
  show ?thesis
    using k [of INFO_VALUE_CLOUD_STATUS] k [of INFO_VALUE_CLOUD_ENABLED]
      k [of INFO_VALUE_CLOUD_CONNECTED] s8 e8 c8 i7 cs
    by simp
qed

lemma cloud_env_extracted:
  "http_response (cloud_env en co) ''/status'' = (True, cloud_report en co)"
  "cloud_report en co \<noteq> []"
  "fst (extracted (cloud_env en co) (cloud_report en co) plug_block) INFO_VALUE_CLOUD_ENABLED
     = Some (PBool en)"
  "fst (extracted (cloud_env en co) (cloud_report en co) plug_block) INFO_VALUE_CLOUD_CONNECTED
     = Some (PBool co)"
  by (simp_all add: extracted_def cloud_env_def cloud_report_def env0_def plug_block_eq
        fixture_extract_def path_cfg_def Let_def)

text \<open>
  C2. Cloud status derivation: when the poll of \<^verbatim>\<open>/status\<close> succeeds with a status
  that is not empty, then after \<open>update_status_information\<close> (whether it ends normally
  or a later step raises) the info values \<^verbatim>\<open>INFO_VALUE_CLOUD_ENABLED\<close> and
  \<^verbatim>\<open>INFO_VALUE_CLOUD_CONNECTED\<close> are the ones that the extraction rules produced from
  this status, and \<^verbatim>\<open>INFO_VALUE_CLOUD_STATUS\<close> is computed from these two:
  \<^verbatim>\<open>'disabled'\<close> when the extracted \<^verbatim>\<open>enabled\<close> is false (or missing), whatever
  \<^verbatim>\<open>connected\<close> is; otherwise \<^verbatim>\<open>'connected'\<close> when the extracted \<^verbatim>\<open>connected\<close> is true
  and \<^verbatim>\<open>'disconnected'\<close> when it is not.
\<close>

theorem cloud_status_derivation:
  assumes "http_response e ''/status'' = (True, status)" and "status \<noteq> []"
  shows "info_values (snd (update_status_information e b)) INFO_VALUE_CLOUD_ENABLED
           = fst (extracted e status b) INFO_VALUE_CLOUD_ENABLED
       \<and> info_values (snd (update_status_information e b)) INFO_VALUE_CLOUD_CONNECTED
           = fst (extracted e status b) INFO_VALUE_CLOUD_CONNECTED
       \<and> info_values (snd (update_status_information e b)) INFO_VALUE_CLOUD_STATUS
           = Some (if \<not> truthy (iv_get (fst (extracted e status b)) INFO_VALUE_CLOUD_ENABLED)
                   then PStr ''disabled''
                   else if truthy (iv_get (fst (extracted e status b)) INFO_VALUE_CLOUD_CONNECTED)
                   then PStr ''connected'' else PStr ''disconnected'')"
  using assms by (rule cloud_status_lemma)

text \<open>The three rows of the table, and a fourth, on a plug whose device reports the
  flags: the status follows the reported flags, which are stored as reported.\<close>

theorem cloud_status_derivation_witness:
  "http_response (cloud_env True True) ''/status'' = (True, cloud_report True True)
   \<and> cloud_report True True \<noteq> []
   \<and> info_values (snd (update_status_information (cloud_env False True) plug_block))
       INFO_VALUE_CLOUD_STATUS = Some (PStr ''disabled'')
   \<and> info_values (snd (update_status_information (cloud_env False False) plug_block))
       INFO_VALUE_CLOUD_STATUS = Some (PStr ''disabled'')
   \<and> info_values (snd (update_status_information (cloud_env True True) plug_block))
       INFO_VALUE_CLOUD_STATUS = Some (PStr ''connected'')
   \<and> info_values (snd (update_status_information (cloud_env True False) plug_block))
       INFO_VALUE_CLOUD_STATUS = Some (PStr ''disconnected'')
   \<and> info_values (snd (update_status_information (cloud_env True True) plug_block))
       INFO_VALUE_CLOUD_ENABLED = Some (PBool True)
   \<and> info_values (snd (update_status_information (cloud_env True True) plug_block))
       INFO_VALUE_CLOUD_CONNECTED = Some (PBool True)
   \<and> info_values (snd (update_status_information (cloud_env False True) plug_block))
       INFO_VALUE_CLOUD_ENABLED = Some (PBool False)"
  using cloud_status_derivation [OF cloud_env_extracted(1,2), of False True plug_block]
    cloud_status_derivation [OF cloud_env_extracted(1,2), of False False plug_block]
    cloud_status_derivation [OF cloud_env_extracted(1,2), of True True plug_block]
    cloud_status_derivation [OF cloud_env_extracted(1,2), of True False plug_block]
  by (simp add: cloud_env_extracted iv_get_def)



text \<open>
  C4. Availability: \<open>available\<close> is true when no timeout is configured, whatever
  \<open>last_updated\<close> is; with a timeout it is false for a block that was never updated, and
  otherwise it is true exactly when the time since the last update, in seconds, is at
  most the timeout.
\<close>

theorem available_spec:
  "(unavailable_after_sec b = None \<longrightarrow> available e b)
   \<and> (unavailable_after_sec b = Some sec \<and> last_updated b = None \<longrightarrow> \<not> available e b)
   \<and> (unavailable_after_sec b = Some sec \<and> last_updated b = Some lu \<longrightarrow>
        (available e b \<longleftrightarrow> total_seconds (now e - lu) \<le> of_int sec))"
  by (simp add: available_def)

theorem available_spec_witness:
  "available env0 plug_block
   \<and> \<not> available env0 sensor_block
   \<and> \<not> available env0 (sensor_block\<lparr>last_updated := Some (now env0 - 700000000)\<rparr>)
   \<and> available env0 (sensor_block\<lparr>last_updated := Some (now env0 - 500000000)\<rparr>)"
proof -
  have t: "unavailable_after_sec sensor_block = Some 600"
    and n: "last_updated sensor_block = None"
    and p: "unavailable_after_sec plug_block = None"
    by (simp_all add: sensor_block_def plug_block_def Block_init_def Block_attrs_def block_setup_def setup_devices_def
          poll_settings_def http_get_def add_devices_def add_device_def log_event_def env0_def)
  have a: "available env0 plug_block"
    using available_spec [where b = plug_block and e = env0] p by blast
  have b: "\<not> available env0 sensor_block"
    using available_spec [where b = sensor_block and sec = 600 and e = env0] t n by blast
  have c: "\<not> available env0 (sensor_block\<lparr>last_updated := Some (now env0 - 700000000)\<rparr>)"
    using available_spec [where b = "sensor_block\<lparr>last_updated := Some (now env0 - 700000000)\<rparr>"
        and sec = 600 and lu = "now env0 - 700000000" and e = env0] t
    by (simp add: total_seconds_def)
  have d: "available env0 (sensor_block\<lparr>last_updated := Some (now env0 - 500000000)\<rparr>)"
    using available_spec [where b = "sensor_block\<lparr>last_updated := Some (now env0 - 500000000)\<rparr>"
        and sec = 600 and lu = "now env0 - 500000000" and e = env0] t
    by (simp add: total_seconds_def)
  from a b c d show ?thesis by blast
qed

subsection \<open>Observers, sub-devices and the failed poll\<close>

lemma run_callbacks_ok:
  "\<forall>c\<in>set cbs. \<not> callback_raises e c \<Longrightarrow>
   run_callbacks e cbs b = (Ok, b\<lparr>events := events b @ map CallbackInvoked cbs\<rparr>)"
  by (induction cbs arbitrary: b) (simp_all add: log_event_def Let_def)

lemma run_callbacks_raise:
  "\<forall>x\<in>set pre. \<not> callback_raises e x \<Longrightarrow> callback_raises e c \<Longrightarrow>
   run_callbacks e (pre @ c # post) b =
     (Raised (ObserverError c), b\<lparr>events := events b @ map CallbackInvoked (pre @ [c])\<rparr>)"
  by (induction pre arbitrary: b) (simp_all add: log_event_def Let_def)

lemma update_devices_events_mono:
  "set (events b) \<subseteq> set (events (update_devices e devs b))"
proof -
  obtain evs where "update_devices e devs b = b\<lparr>events := events b @ evs\<rparr>"
    using update_devices_frame by blast
  then show ?thesis by simp
qed

lemma update_devices_all:
  "d \<in> set devs \<Longrightarrow> DevUpdateStatus d \<in> set (events (update_devices e devs b))"
proof (induction devs arbitrary: b)
  case Nil
  then show ?case by simp
next
  case (Cons a devs)
  show ?case
  proof (cases "d = a")
    case True
    have "DevUpdateStatus a \<in> set (events (log_event (DevUpdateStatus a) (log_event (DevUpdateInfoValues a) b)))"
      by (simp add: log_event_def)
    then show ?thesis
      using True update_devices_events_mono
      by (auto simp: Let_def log_event_def intro: subsetD [OF update_devices_events_mono])
  next
    case False
    with Cons.prems have "d \<in> set devs" by simp
    then show ?thesis using Cons.IH by (simp add: Let_def)
  qed
qed

lemma failed_poll_eq:
  assumes "http_response e ''/status'' = (success, status)" and "\<not> success \<or> status = []"
  shows "update_status_information e b =
           (Ok, b\<lparr>last_update_status_info := Some (now e),
                   events := events b @ [HttpGet ''/status'']\<rparr>)"
  using assms by (auto simp add: update_status_information_def http_get_def log_event_def)

text \<open>
  C5 (as amended). Failed poll: when the poll of \<^verbatim>\<open>/status\<close> fails or answers with an
  empty status, \<open>update_status_information\<close> returns normally and changes nothing of the
  block but the time of the attempt, \<open>last_update_status_info\<close>, which it sets to the
  current time before polling. So \<open>last_updated\<close>, the info values and their timestamps
  are as before, and the only call made on a collaborator is the request itself: no
  observer and no sub-device is notified.
\<close>

theorem failed_poll_frame:
  assumes "http_response e ''/status'' = (success, status)" and "\<not> success \<or> status = []"
  shows "update_status_information e b =
           (Ok, b\<lparr>last_update_status_info := Some (now e),
                   events := events b @ [HttpGet ''/status'']\<rparr>)"
  using assms by (rule failed_poll_eq)

theorem failed_poll_frame_witness:
  "http_response env0 ''/status'' = (False, [])
   \<and> update_status_information env0 observed_block =
        (Ok, observed_block\<lparr>last_update_status_info := Some 1000000000,
               events := [HttpGet ''/settings'', HttpGet ''/status'']\<rparr>)"
proof -
  have r: "http_response env0 ''/status'' = (False, [])"
    by (simp add: env0_def)
  have n: "now env0 = 1000000000" "events observed_block = [HttpGet ''/settings'']"
    by (simp_all add: env0_def observed_block_def plug_block_eq)
  show ?thesis
    using failed_poll_frame [OF r, of observed_block] r n by simp
qed

text \<open>As stated, C5 says that the block is left unchanged; the attempt's timestamp is not.\<close>

theorem failed_poll_counterexample:
  "http_response env0 ''/status'' = (False, [])
   \<and> last_update_status_info observed_block = None
   \<and> last_update_status_info (snd (update_status_information env0 observed_block))
       = Some 1000000000"
proof -
  have r: "http_response env0 ''/status'' = (False, [])"
    by (simp add: env0_def)
  show ?thesis
    using failed_poll_eq [OF r, of observed_block] r
    by (simp add: env0_def observed_block_def plug_block_eq)
qed

text \<open>
  C8 (as amended). \<open>raise_updated\<close> does not isolate the observers. When no callback
  raises, every registered callback is invoked once, in the order of registration. When
  a callback raises, the callbacks registered after it are not invoked and the exception
  reaches the caller of \<open>raise_updated\<close>. Only the loop over the sub-devices in
  \<open>update_status_information\<close> is guarded: every sub-device is updated even when the
  update or the notification of an earlier one raises.
\<close>

theorem raise_updated_no_isolation:
  "(( \<forall>c\<in>set (cb_updated b). \<not> callback_raises e c) \<longrightarrow>
      raise_updated e b = (Ok, b\<lparr>events := events b @ map CallbackInvoked (cb_updated b)\<rparr>))
   \<and> (cb_updated b = pre @ c # post \<and> (\<forall>x\<in>set pre. \<not> callback_raises e x) \<and> callback_raises e c \<longrightarrow>
      raise_updated e b =
        (Raised (ObserverError c), b\<lparr>events := events b @ map CallbackInvoked (pre @ [c])\<rparr>))
   \<and> (\<forall>d\<in>set devs. DevUpdateStatus d \<in> set (events (update_devices e devs b)))"
  using run_callbacks_ok [of "cb_updated b" e b] run_callbacks_raise [of pre e c post b]
    update_devices_all [of _ devs e b]
  by (simp add: raise_updated_def)

theorem raise_updated_no_isolation_witness:
  "raise_updated env1 observed_block =
     (Ok, observed_block\<lparr>events := events observed_block @ [CallbackInvoked 0, CallbackInvoked 1]\<rparr>)
   \<and> raise_updated env_raise observed_block =
     (Raised (ObserverError 0),
      observed_block\<lparr>events := events observed_block @ [CallbackInvoked 0]\<rparr>)
   \<and> DevUpdateStatus (new_dev PowerMeter [AInt 0, APos [111, 4101]])
        \<in> set (events (update_devices env_devfail (devices observed_block) observed_block))"
proof -
  have cb: "cb_updated observed_block = [0, 1]" "cb_updated observed_block = [] @ 0 # [1]"
    by (simp_all add: observed_block_def)
  have no: "\<forall>c\<in>set (cb_updated observed_block). \<not> callback_raises env1 c"
    by (simp add: env1_def env0_def)
  have ra: "\<forall>x\<in>set []. \<not> callback_raises env_raise x" "callback_raises env_raise 0"
    by (simp_all add: env_raise_def)
  have dv: "new_dev PowerMeter [AInt 0, APos [111, 4101]] \<in> set (devices observed_block)"
    by (simp add: observed_block_def plug_block_eq)
  from raise_updated_no_isolation [of observed_block env1 "[]" 0 "[1]" "devices observed_block"]
    no cb
  have a: "raise_updated env1 observed_block =
     (Ok, observed_block\<lparr>events := events observed_block @ [CallbackInvoked 0, CallbackInvoked 1]\<rparr>)"
    by simp
  from raise_updated_no_isolation [of observed_block env_raise "[]" 0 "[1]" "devices observed_block"]
    ra cb
  have b: "raise_updated env_raise observed_block =
     (Raised (ObserverError 0),
      observed_block\<lparr>events := events observed_block @ [CallbackInvoked 0]\<rparr>)"
    by simp
  from raise_updated_no_isolation [of observed_block env_devfail "[]" 0 "[1]" "devices observed_block"]
    dv
  have c: "DevUpdateStatus (new_dev PowerMeter [AInt 0, APos [111, 4101]])
        \<in> set (events (update_devices env_devfail (devices observed_block) observed_block))"
    by blast
  from a b c show ?thesis by blast
qed

text \<open>As stated, C8 fails: the first observer raises, the second is never invoked, and
  the update cycle ends with the exception before any sub-device is updated.\<close>

theorem raise_updated_isolation_counterexample:
  "callback_raises env_raise 0
   \<and> cb_updated observed_block = [0, 1]
   \<and> devices observed_block \<noteq> []
   \<and> update_status_information env_raise observed_block =
       (Raised (ObserverError 0),
        snd (update_status_information env_raise observed_block))
   \<and> events (snd (update_status_information env_raise observed_block)) =
       [HttpGet ''/settings'', HttpGet ''/status'', CallbackInvoked 0]"
  by (simp add: update_status_information_def http_get_def Let_def observed_block_def
        plug_block_eq latest_fw_version_def version_def list_firmwares_def fm_http_get_def
        fm_init_def apply_info_def set_info_def log_event_def fixture_extract_def path_cfg_def
        status1_def raise_updated_def cloud_status_def iv_get_def new_dev_def
        env_raise_def env1_def env0_def)

subsection \<open>The auto-reset timer\<close>

lemma py_eq_refl: "py_eq v v"
  by (cases v) simp_all

lemma loop_items_no_auto:
  "\<forall>(n, c)\<in>set cfgs. ATTR_AUTO_SET c = None \<Longrightarrow> loop_items e cfgs b = (Ok, b)"
  by (induction cfgs) auto

lemma loop_items_prefix:
  "\<forall>(n, c)\<in>set pre. ATTR_AUTO_SET c = None \<Longrightarrow>
   loop_items e (pre @ rest) b = loop_items e rest b"
  by (induction pre) auto

lemma loop_single_rule:
  assumes cfg: "info_value_cfg b = Some cfgs"
    and dist: "distinct (map fst cfgs)"
    and mem: "(iv, c) \<in> set cfgs"
    and only: "\<forall>(n, c')\<in>set cfgs. n \<noteq> iv \<longrightarrow> ATTR_AUTO_SET c' = None"
  shows "\<exists>post. (\<forall>(n, c')\<in>set post. ATTR_AUTO_SET c' = None)
           \<and> loop e b = loop_items e ((iv, c) # post) b"
proof -
  from mem obtain pre post where sp: "cfgs = pre @ (iv, c) # post"
    by (meson split_list)
  from dist sp have "iv \<notin> fst ` set pre" "iv \<notin> fst ` set post"
    by auto
  then have np: "\<forall>(n, c')\<in>set pre. n \<noteq> iv" and nq: "\<forall>(n, c')\<in>set post. n \<noteq> iv"
    by force+
  from only sp np have p: "\<forall>(n, c')\<in>set pre. ATTR_AUTO_SET c' = None"
    by fastforce
  from only sp nq have q: "\<forall>(n, c')\<in>set post. ATTR_AUTO_SET c' = None"
    by fastforce
  have "loop e b = loop_items e ((iv, c) # post) b"
    using cfg sp loop_items_prefix [OF p] by (simp add: loop_def)
  with q show ?thesis by blast
qed

lemma auto_reset_lemma:
  assumes cfg: "info_value_cfg b = Some cfgs"
    and dist: "distinct (map fst cfgs)"
    and mem: "(iv, c) \<in> set cfgs"
    and auto: "ATTR_AUTO_SET c = Some (target, delay)"
    and only: "\<forall>(n, c')\<in>set cfgs. n \<noteq> iv \<longrightarrow> ATTR_AUTO_SET c' = None"
    and ne: "\<not> py_eq (iv_get (info_values b) iv) target"
    and ts: "info_values_updated b iv = Some T"
  shows "(total_seconds (now e - T) \<le> of_int delay \<longrightarrow> loop e b = (Ok, b))
    \<and> (total_seconds (now e - T) > of_int delay
         \<and> (\<forall>cb\<in>set (cb_updated b). \<not> callback_raises e cb) \<longrightarrow>
       loop e b =
         (Ok, b\<lparr>info_values := (info_values b)(iv \<mapsto> target),
                 events := events b @ map CallbackInvoked (cb_updated b)\<rparr>)
       \<and> loop e' (snd (loop e b)) = (Ok, snd (loop e b)))"
proof -
  from loop_single_rule [OF cfg dist mem only, of e] obtain post where
    q: "\<forall>(n, c')\<in>set post. ATTR_AUTO_SET c' = None"
    and l: "loop e b = loop_items e ((iv, c) # post) b"
    by blast
  have early: "total_seconds (now e - T) \<le> of_int delay \<Longrightarrow> loop e b = (Ok, b)"
    using l auto ne ts loop_items_no_auto [OF q] by (simp add: Let_def)
  let ?b1 = "b\<lparr>info_values := (info_values b)(iv \<mapsto> target)\<rparr>"
  let ?b2 = "b\<lparr>info_values := (info_values b)(iv \<mapsto> target),
                 events := events b @ map CallbackInvoked (cb_updated b)\<rparr>"
  have late: "loop e b = (Ok, ?b2)"
    if d: "total_seconds (now e - T) > of_int delay"
      and nr: "\<forall>cb\<in>set (cb_updated b). \<not> callback_raises e cb"
  proof -
    have ru: "raise_updated e ?b1 = (Ok, ?b2)"
      using run_callbacks_ok [of "cb_updated b" e ?b1] nr by (simp add: raise_updated_def)
    show ?thesis
      using l auto ne ts d ru loop_items_no_auto [OF q] by (simp add: Let_def)
  qed
  have again: "loop e' ?b2 = (Ok, ?b2)"
  proof -
    have cfg2: "info_value_cfg ?b2 = Some cfgs" using cfg by simp
    from loop_single_rule [OF cfg2 dist mem only, of e'] obtain post' where
      q': "\<forall>(n, c')\<in>set post'. ATTR_AUTO_SET c' = None"
      and l': "loop e' ?b2 = loop_items e' ((iv, c) # post') ?b2"
      by blast
    show ?thesis
      using l' auto loop_items_no_auto [OF q'] by (simp add: Let_def iv_get_def py_eq_refl)
  qed
  show ?thesis
    using early late again by auto
qed

text \<open>
  C1 (as amended). Auto-reset timer. Let an info value have the only auto-set rule
  \<open>(target, delay)\<close> of the block's table, let its value differ from \<open>target\<close> and let
  its last-updated timestamp be \<open>T\<close>. On a tick of \<open>loop\<close> at a time \<open>t\<close> with
  \<open>t - T \<le> delay\<close> seconds (the tick at \<open>T + delay\<close> included) the block is unchanged.
  On the first tick with \<open>t - T > delay\<close> the value is set to \<open>target\<close>, the timestamp
  stays \<open>T\<close> (the loop does not stamp it), and one change notification is raised: every
  registered callback is invoked once, none of them raising. On any later tick, the
  value still being \<open>target\<close>, the block is unchanged and no notification is raised.
\<close>

theorem auto_reset:
  assumes "info_value_cfg b = Some cfgs"
    and "distinct (map fst cfgs)"
    and "(iv, c) \<in> set cfgs"
    and "ATTR_AUTO_SET c = Some (target, delay)"
    and "\<forall>(n, c')\<in>set cfgs. n \<noteq> iv \<longrightarrow> ATTR_AUTO_SET c' = None"
    and "\<not> py_eq (iv_get (info_values b) iv) target"
    and "info_values_updated b iv = Some T"
  shows "(total_seconds (now e - T) \<le> of_int delay \<longrightarrow> loop e b = (Ok, b))
    \<and> (total_seconds (now e - T) > of_int delay
         \<and> (\<forall>cb\<in>set (cb_updated b). \<not> callback_raises e cb) \<longrightarrow>
       loop e b =
         (Ok, b\<lparr>info_values := (info_values b)(iv \<mapsto> target),
                 events := events b @ map CallbackInvoked (cb_updated b)\<rparr>)
       \<and> loop e' (snd (loop e b)) = (Ok, snd (loop e b)))"
  using assms by (rule auto_reset_lemma)

theorem auto_reset_witness:
  "loop env0 (vib_block 940000000) = (Ok, vib_block 940000000)
   \<and> loop env0 (vib_block 939000000) =
       (Ok, (vib_block 939000000)
              \<lparr>info_values := [INFO_VALUE_VIBRATION \<mapsto> PInt 0],
               events := [CallbackInvoked 0]\<rparr>)
   \<and> loop (env0\<lparr>now := 2000000000\<rparr>) (snd (loop env0 (vib_block 939000000)))
       = (Ok, snd (loop env0 (vib_block 939000000)))"
proof -
  let ?cfgs = "[(INFO_VALUE_BATTERY, pos_cfg 3111),
                (INFO_VALUE_TILT, pos_cfg 3109),
                (INFO_VALUE_VIBRATION, (pos_cfg 6110)\<lparr>ATTR_AUTO_SET := Some (PInt 0, 60)\<rparr>),
                (INFO_VALUE_TEMP, pos_cfg 3101),
                (INFO_VALUE_ILLUMINANCE, pos_cfg 3106)]"
  let ?c = "(pos_cfg 6110)\<lparr>ATTR_AUTO_SET := Some (PInt 0, 60)\<rparr>"
  have h1: "info_value_cfg (vib_block T) = Some ?cfgs" for T
    by (simp add: vib_block_fields)
  have h2: "distinct (map fst ?cfgs)"
    by simp
  have h3: "(INFO_VALUE_VIBRATION, ?c) \<in> set ?cfgs"
    by simp
  have h4: "ATTR_AUTO_SET ?c = Some (PInt 0, 60)"
    by simp
  have h5: "\<forall>(n, c')\<in>set ?cfgs. n \<noteq> INFO_VALUE_VIBRATION \<longrightarrow> ATTR_AUTO_SET c' = None"
    by (simp add: pos_cfg_def)
  have h6: "\<not> py_eq (iv_get (info_values (vib_block T)) INFO_VALUE_VIBRATION) (PInt 0)" for T
    by (simp add: vib_block_fields iv_get_def)
  have h7: "info_values_updated (vib_block T) INFO_VALUE_VIBRATION = Some T" for T
    by (simp add: vib_block_fields)
  have t60: "total_seconds (now env0 - 940000000) \<le> of_int 60"
    and t61: "total_seconds (now env0 - 939000000) > of_int 60"
    and nr: "\<forall>cb\<in>set (cb_updated (vib_block 939000000)). \<not> callback_raises env0 cb"
    by (simp_all add: total_seconds_def env0_def)
  from auto_reset [where b = "vib_block 940000000" and T = 940000000 and e = env0 and e' = env0,
      OF h1 h2 h3 h4 h5 h6 h7] t60
  have a: "loop env0 (vib_block 940000000) = (Ok, vib_block 940000000)"
    by blast
  from auto_reset [where b = "vib_block 939000000" and T = 939000000 and e = env0
        and e' = "env0\<lparr>now := 2000000000\<rparr>", OF h1 h2 h3 h4 h5 h6 h7] t61 nr
  have b: "loop env0 (vib_block 939000000) =
         (Ok, (vib_block 939000000)
                \<lparr>info_values := (info_values (vib_block 939000000))(INFO_VALUE_VIBRATION \<mapsto> PInt 0),
                 events := events (vib_block 939000000)
                            @ map CallbackInvoked (cb_updated (vib_block 939000000))\<rparr>)"
    and c: "loop (env0\<lparr>now := 2000000000\<rparr>) (snd (loop env0 (vib_block 939000000)))
       = (Ok, snd (loop env0 (vib_block 939000000)))"
    by blast+
  from a b c show ?thesis
    by (simp add: vib_block_fields)
qed

text \<open>
  As stated, C1 fails twice: on the tick at exactly \<open>T + 60\<close> seconds the value is not yet
  reset, and when it is reset (here at \<open>T + 61\<close>, the clock reading 1000 s) the timestamp
  of the value is still \<open>T\<close>, not the current time.
\<close>

theorem auto_reset_counterexample:
  "total_seconds (now env0 - 940000000) = 60
   \<and> info_values (snd (loop env0 (vib_block 940000000))) INFO_VALUE_VIBRATION = Some (PInt 1)
   \<and> total_seconds (now env0 - 939000000) = 61
   \<and> info_values (snd (loop env0 (vib_block 939000000))) INFO_VALUE_VIBRATION = Some (PInt 0)
   \<and> info_values_updated (snd (loop env0 (vib_block 939000000))) INFO_VALUE_VIBRATION
        = Some 939000000
   \<and> now env0 = 1000000000"
  by (simp add: loop_def vib_block_fields pos_cfg_def total_seconds_def iv_get_def Let_def
        raise_updated_def log_event_def env0_def)

subsection \<open>Composition and reload\<close>

lemma add_devices_devices:
  "devices (add_devices ds b) = devices b @ map (\<lambda>(dev, lazy). dev\<lparr>lazy_load := lazy\<rparr>) ds"
  unfolding add_devices_def
  by (induction ds arbitrary: b) (auto simp: add_device_def)

lemma add_devices_fields:
  "block_type (add_devices ds b) = block_type b"
  "settings (add_devices ds b) = settings b"
  "events (add_devices ds b) = events b"
  "reload (add_devices ds b) = reload b"
  "firmware_mgr (add_devices ds b) = firmware_mgr b"
  unfolding add_devices_def
  by (induction ds arbitrary: b, auto simp: add_device_def)+

lemma poll_settings_fields:
  "block_type (poll_settings e b) = block_type b"
  "devices (poll_settings e b) = devices b"
  by (auto simp add: poll_settings_def http_get_def log_event_def split: prod.splits)

lemma setup_no_settings:
  assumes "\<not> settings_truthy b"
  shows "(block_type b = ''SHSW-21'' \<or> block_type b = ''SHSW-25'' \<longrightarrow>
            devices (setup_devices e b) = devices b)
       \<and> (block_type b = ''SHRGBW2'' \<longrightarrow>
            devices (setup_devices e b) = devices b @ [new_dev Switch [AInt 0, AInt 118]])"
  using assms
  by (auto simp add: setup_devices_def Let_def add_devices_devices new_dev_def)

lemma setup_devices_determined:
  assumes "block_type b1 = block_type b2" and "settings b1 = settings b2"
    and "devices b1 = devices b2"
  shows "devices (setup_devices e1 b1) = devices (setup_devices e2 b2)"
  using assms
  by (simp add: setup_devices_def Let_def add_devices_devices settings_truthy_def
        settings_get_def)


lemma fold_events:
  "fold (\<lambda>x b. b\<lparr>events := events b @ f x\<rparr>) xs b = b\<lparr>events := events b @ concat (map f xs)\<rparr>"
  by (induction xs arbitrary: b) simp_all

lemma dev_coap_eq: "dev_coap e dev b = b\<lparr>events := events b @ coap_events e dev\<rparr>"
  by (simp add: dev_coap_def coap_events_def log_event_def Let_def)

lemma first_loop_eq:
  "fold (\<lambda>dev b. dev_coap e dev (log_event (DevSetIp dev ip) b)) ds b
     = b\<lparr>events := events b @ concat (map (\<lambda>d. DevSetIp d ip # coap_events e d) ds)\<rparr>"
proof -
  have "(\<lambda>dev b. dev_coap e dev (log_event (DevSetIp dev ip) b))
          = (\<lambda>x b. b\<lparr>events := events b @ (DevSetIp x ip # coap_events e x)\<rparr>)"
    by (intro ext) (simp add: dev_coap_eq log_event_def)
  then show ?thesis by (simp only: fold_events)
qed

lemma close_loop_eq:
  "fold (\<lambda>device b. log_event (DevClose device) (log_event (RegistryRemove device) b)) ds b
     = b\<lparr>events := events b @ concat (map (\<lambda>d. [RegistryRemove d, DevClose d]) ds)\<rparr>"
proof -
  have "(\<lambda>device b. log_event (DevClose device) (log_event (RegistryRemove device) b))
          = (\<lambda>x b. b\<lparr>events := events b @ [RegistryRemove x, DevClose x]\<rparr>)"
    by (intro ext) (simp add: log_event_def)
  then show ?thesis by (simp only: fold_events)
qed

lemma add_loop_eq:
  "fold (\<lambda>dev b. log_event (RegistryAdd dev) (dev_coap e dev b)) ds b
     = b\<lparr>events := events b @ concat (map (\<lambda>d. coap_events e d @ [RegistryAdd d]) ds)\<rparr>"
proof -
  have "(\<lambda>dev b. log_event (RegistryAdd dev) (dev_coap e dev b))
          = (\<lambda>x b. b\<lparr>events := events b @ (coap_events e x @ [RegistryAdd x])\<rparr>)"
    by (intro ext) (simp add: dev_coap_eq log_event_def)
  then show ?thesis by (simp only: fold_events)
qed

lemma setup_devices_events: "events (setup_devices e b) = events b"
  by (simp add: setup_devices_def Let_def add_devices_fields)

lemma setup_devices_fields:
  "block_type (setup_devices e b) = block_type b"
  "settings (setup_devices e b) = settings b"
  by (simp_all add: setup_devices_def Let_def add_devices_fields)

lemma poll_settings_events:
  "events (poll_settings e b)
     = events b @ (if is_battery e (block_type b) then [] else [HttpGet ''/settings''])"
  by (auto simp add: poll_settings_def http_get_def log_event_def split: prod.splits)

lemma poll_settings_settings:
  "settings (poll_settings e b)
     = (if is_battery e (block_type b) then settings b
        else if fst (http_response e ''/settings'') then Some (snd (http_response e ''/settings''))
        else settings b)"
  by (auto simp add: poll_settings_def http_get_def log_event_def split: prod.splits)

lemma reload_devices_facts:
  "events (reload_devices e b)
     = events b @ concat (map (\<lambda>d. [RegistryRemove d, DevClose d]) (devices b))
         @ (if is_battery e (block_type b) then [] else [HttpGet ''/settings''])"
  "block_type (reload_devices e b) = block_type b"
  "settings (reload_devices e b)
     = (if is_battery e (block_type b) then settings b
        else if fst (http_response e ''/settings'') then Some (snd (http_response e ''/settings''))
        else settings b)"
  "devices (reload_devices e b)
     = devices (setup_devices e' ((Block_attrs fm bid (block_type b) ip)
                  \<lparr>settings := settings (reload_devices e b)\<rparr>))"
proof -
  let ?b2 = "(b\<lparr>events := events b @ concat (map (\<lambda>d. [RegistryRemove d, DevClose d]) (devices b))\<rparr>)
               \<lparr>devices := []\<rparr>"
  have r: "reload_devices e b = setup_devices e (poll_settings e ?b2)"
    by (simp add: reload_devices_def Let_def close_loop_eq block_setup_def)
  show "events (reload_devices e b)
     = events b @ concat (map (\<lambda>d. [RegistryRemove d, DevClose d]) (devices b))
         @ (if is_battery e (block_type b) then [] else [HttpGet ''/settings''])"
    by (simp add: r setup_devices_events poll_settings_events)
  show "block_type (reload_devices e b) = block_type b"
    by (simp add: r setup_devices_fields poll_settings_fields)
  show s: "settings (reload_devices e b)
     = (if is_battery e (block_type b) then settings b
        else if fst (http_response e ''/settings'') then Some (snd (http_response e ''/settings''))
        else settings b)"
    by (simp add: r setup_devices_fields poll_settings_settings)
  have "devices (setup_devices e (poll_settings e ?b2))
     = devices (setup_devices e' ((Block_attrs fm bid (block_type b) ip)
                  \<lparr>settings := settings (poll_settings e ?b2)\<rparr>))"
    by (rule setup_devices_determined)
       (simp_all add: poll_settings_fields Block_attrs_def)
  then show "devices (reload_devices e b)
     = devices (setup_devices e' ((Block_attrs fm bid (block_type b) ip)
                  \<lparr>settings := settings (reload_devices e b)\<rparr>))"
    by (simp add: r setup_devices_fields)
qed

lemma apply_info_fields:
  "devices (apply_info f b) = devices b"
  "events (apply_info f b) = events b"
  "reload (apply_info f b) = reload b"
  "block_type (apply_info f b) = block_type b"
  "settings (apply_info f b) = settings b"
  by (simp_all add: apply_info_def split: prod.splits)

lemma reload_correct_lemma:
  assumes "reload b"
  shows "events (update_coap e pl ip b)
      = events b
        @ concat (map (\<lambda>d. DevSetIp d ip # coap_events e d) (devices b))
        @ concat (map (\<lambda>d. [RegistryRemove d, DevClose d]) (devices b))
        @ (if is_battery e (block_type b) then [] else [HttpGet ''/settings''])
        @ concat (map (\<lambda>d. coap_events e d @ [RegistryAdd d]) (devices (update_coap e pl ip b)))
    \<and> settings (update_coap e pl ip b)
      = (if is_battery e (block_type b) then settings b
         else if fst (http_response e ''/settings'')
         then Some (snd (http_response e ''/settings''))
         else settings b)
    \<and> devices (update_coap e pl ip b)
      = devices (setup_devices e' ((Block_attrs fm bid (block_type b) ip')
                   \<lparr>settings := settings (update_coap e pl ip b)\<rparr>))
    \<and> \<not> reload (update_coap e pl ip b)"
proof -
  define b3 where "b3 = apply_info (update_info_values_coap e pl)
                          (b\<lparr>ip_addr := ip, last_updated := Some (now e)\<rparr>)"
  define b4 where "b4 = b3\<lparr>events := events b3
                          @ concat (map (\<lambda>d. DevSetIp d ip # coap_events e d) (devices b3))\<rparr>"
  define b5 where "b5 = reload_devices e b4"
  have f3: "devices b3 = devices b" "events b3 = events b" "reload b3" "block_type b3 = block_type b"
    "settings b3 = settings b"
    using assms by (simp_all add: b3_def apply_info_fields)
  have f4: "devices b4 = devices b" "reload b4" "block_type b4 = block_type b"
    "settings b4 = settings b"
    "events b4 = events b @ concat (map (\<lambda>d. DevSetIp d ip # coap_events e d) (devices b))"
    using f3 by (simp_all add: b4_def)
  have u: "update_coap e pl ip b
             = b5\<lparr>events := events b5
                     @ concat (map (\<lambda>d. coap_events e d @ [RegistryAdd d]) (devices b5)),
                  reload := False\<rparr>"
    using f4(2) unfolding update_coap_def Let_def first_loop_eq add_loop_eq
    by (simp add: b3_def [symmetric] b4_def [symmetric] b5_def [symmetric])
  have e5: "events b5 = events b4 @ concat (map (\<lambda>d. [RegistryRemove d, DevClose d]) (devices b4))
         @ (if is_battery e (block_type b4) then [] else [HttpGet ''/settings''])"
    unfolding b5_def by (rule reload_devices_facts(1))
  have s5: "settings b5 = (if is_battery e (block_type b4) then settings b4
        else if fst (http_response e ''/settings'') then Some (snd (http_response e ''/settings''))
        else settings b4)"
    unfolding b5_def by (rule reload_devices_facts(3))
  have d5: "devices b5 = devices (setup_devices e' ((Block_attrs fm bid (block_type b4) ip')
                  \<lparr>settings := settings b5\<rparr>))"
    unfolding b5_def by (rule reload_devices_facts(4))
  show ?thesis
    using e5 s5 d5 f4 by (simp add: u)
qed

lemma shelly25_fields:
  "block_type shelly25 = ''SHSW-25''"
  "reload shelly25"
  "settings shelly25 = Some [(''mode'', JStr ''relay'')]"
  "devices shelly25 =
     [new_dev Relay [AInt 1, APos [112, 1101], APos [111, 4101], APos [118, 2101]],
      new_dev Relay [AInt 2, APos [122, 1201], APos [121, 4201], APos [128, 2201]],
      new_dev PowerMeter [AInt 1, APos [111, 4101]],
      new_dev PowerMeter [AInt 2, APos [121, 4201]],
      new_dev Switch [AInt 1, APos [118, 2101], AInt 2102, AInt 2103],
      new_dev Switch [AInt 2, APos [128, 2201], AInt 2202, AInt 2203]]"
  by (simp_all add: shelly25_def Block_init_def Block_attrs_def block_setup_def setup_devices_def
        poll_settings_def http_get_def add_devices_def add_device_def log_event_def
        settings_truthy_def settings_get_def new_dev_def env_relay_def env0_def)

text \<open>
  C3 (as amended). Composition without settings. When the block has no settings after
  the poll (none, or an empty dict), the models \<^verbatim>\<open>SHSW-21\<close> and \<^verbatim>\<open>SHSW-25\<close> get no
  sub-device at all, and the model \<^verbatim>\<open>SHRGBW2\<close> gets none of its mode-dependent
  sub-devices but still its one mode-independent input, \<^verbatim>\<open>Switch(self, 0, 118)\<close>.
\<close>

theorem compose_without_settings:
  assumes "\<not> settings_truthy (poll_settings e b)"
  shows "(block_type b = ''SHSW-21'' \<or> block_type b = ''SHSW-25'' \<longrightarrow>
            devices (block_setup e b) = devices b)
       \<and> (block_type b = ''SHRGBW2'' \<longrightarrow>
            devices (block_setup e b) = devices b @ [new_dev Switch [AInt 0, AInt 118]])"
  using setup_no_settings [OF assms, of e] by (simp add: block_setup_def poll_settings_fields)

theorem compose_without_settings_witness:
  "devices (Block_init env0 fm_init ''C0FFEE'' ''SHSW-21'' ''192.168.1.40'') = []
   \<and> devices (Block_init env0 fm_init ''C0FFEE'' ''SHSW-25'' ''192.168.1.40'') = []
   \<and> devices (Block_init env0 fm_init ''C0FFEE'' ''SHRGBW2'' ''192.168.1.40'')
        = [new_dev Switch [AInt 0, AInt 118]]"
proof -
  have h: "\<not> settings_truthy (poll_settings env0 (Block_attrs fm_init ''C0FFEE'' t ''192.168.1.40''))"
    for t
    by (simp add: settings_truthy_def poll_settings_def http_get_def log_event_def
          Block_attrs_def env0_def)
  have f: "block_type (Block_attrs fm_init ''C0FFEE'' t ''192.168.1.40'') = t"
    "devices (Block_attrs fm_init ''C0FFEE'' t ''192.168.1.40'') = []" for t
    by (simp_all add: Block_attrs_def)
  show ?thesis
    unfolding Block_init_def
    using compose_without_settings [OF h, of "''SHSW-21''"]
      compose_without_settings [OF h, of "''SHSW-25''"]
      compose_without_settings [OF h, of "''SHRGBW2''"]
    by (simp add: f)
qed

text \<open>As stated, C3 fails for the RGBW2: composed without settings, it has one
  sub-device, not zero.\<close>

theorem compose_without_settings_counterexample:
  "settings (Block_init env0 fm_init ''C0FFEE'' ''SHRGBW2'' ''192.168.1.40'') = None
   \<and> devices (Block_init env0 fm_init ''C0FFEE'' ''SHRGBW2'' ''192.168.1.40'')
        = [new_dev Switch [AInt 0, AInt 118]]"
  by (simp add: Block_init_def Block_attrs_def block_setup_def setup_devices_def
        poll_settings_def http_get_def add_devices_def add_device_def log_event_def
        settings_truthy_def new_dev_def env0_def)

text \<open>
  C6. Reload. When \<open>update_coap\<close> finds the flag \<open>reload\<close> set, the calls it makes on
  the collaborators are, in this order: the update of the sub-devices owned so far; for
  each of them, in the order of the list and once per entry, its removal from the
  registry followed by its \<^verbatim>\<open>close()\<close>; the poll of the settings (not made for a battery
  model); and only then, for each new sub-device, its update and its addition to the
  registry. Afterwards the settings are the ones just fetched (the previous ones when
  nothing was fetched), the list of sub-devices is the one that \<open>setup_devices\<close> builds for
  a newly constructed block of the same model with these settings, and the flag is
  cleared.
\<close>

theorem reload_correct:
  assumes "reload b"
  shows "events (update_coap e pl ip b)
      = events b
        @ concat (map (\<lambda>d. DevSetIp d ip # coap_events e d) (devices b))
        @ concat (map (\<lambda>d. [RegistryRemove d, DevClose d]) (devices b))
        @ (if is_battery e (block_type b) then [] else [HttpGet ''/settings''])
        @ concat (map (\<lambda>d. coap_events e d @ [RegistryAdd d]) (devices (update_coap e pl ip b)))
    \<and> settings (update_coap e pl ip b)
      = (if is_battery e (block_type b) then settings b
         else if fst (http_response e ''/settings'')
         then Some (snd (http_response e ''/settings''))
         else settings b)
    \<and> devices (update_coap e pl ip b)
      = devices (setup_devices e' ((Block_attrs fm bid (block_type b) ip')
                   \<lparr>settings := settings (update_coap e pl ip b)\<rparr>))
    \<and> \<not> reload (update_coap e pl ip b)"
  using assms by (rule reload_correct_lemma)

theorem reload_correct_witness:
  "reload shelly25
   \<and> settings (update_coap env_roller PNone ''192.168.1.41'' shelly25)
       = Some [(''mode'', JStr ''roller'')]
   \<and> devices (update_coap env_roller PNone ''192.168.1.41'' shelly25)
       = [new_dev Roller [],
          new_dev PowerMeter [AInt 1, APos [111, 121, 4101, 4102], APos [0, 1]]]
   \<and> \<not> reload (update_coap env_roller PNone ''192.168.1.41'' shelly25)"
proof -
  have r: "reload shelly25"
    by (rule shelly25_fields)
  have s: "settings (update_coap env_roller PNone ''192.168.1.41'' shelly25)
       = Some [(''mode'', JStr ''roller'')]"
    using reload_correct [OF r, of env_roller PNone "''192.168.1.41''"]
    by (simp add: shelly25_fields env_roller_def env0_def)
  have d: "devices (update_coap env_roller PNone ''192.168.1.41'' shelly25)
       = devices (setup_devices env0 ((Block_attrs fm_init ''C0FFEE'' (block_type shelly25) ''192.168.1.41'')
                   \<lparr>settings := settings (update_coap env_roller PNone ''192.168.1.41'' shelly25)\<rparr>))"
    and n: "\<not> reload (update_coap env_roller PNone ''192.168.1.41'' shelly25)"
    using reload_correct [OF r, of env_roller PNone "''192.168.1.41''" env0 fm_init "''C0FFEE''"
        "''192.168.1.41''"]
    by blast+
  have "devices (update_coap env_roller PNone ''192.168.1.41'' shelly25)
       = [new_dev Roller [],
          new_dev PowerMeter [AInt 1, APos [111, 121, 4101, 4102], APos [0, 1]]]"
    unfolding d s
    by (simp add: shelly25_fields Block_attrs_def setup_devices_def add_devices_def
          add_device_def settings_truthy_def settings_get_def new_dev_def)
  with r s n show ?thesis by blast
qed

subsection \<open>Firmware\<close>

lemma latest_fw_version_fw:
  "latest_fw_version e beta b = (r, b1) \<Longrightarrow> fw_version b1 = fw_version b"
  using latest_fw_version_info_values [of e beta b] by (simp add: fw_version_def)

lemma has_fw_update_lemma:
  "(latest_fw_version e beta b = (Inr latest, b1) \<longrightarrow>
      (\<exists>v. has_fw_update e beta b = (Inr v, b1)
         \<and> (truthy v \<longleftrightarrow> truthy latest \<and> truthy (fw_version b)
                          \<and> \<not> py_eq latest (fw_version b))))
   \<and> (latest_fw_version e beta b = (Inr (PStr l), b1) \<and> fw_version b = PStr c \<longrightarrow>
      (\<exists>v. has_fw_update e beta b = (Inr v, b1) \<and> (truthy v \<longleftrightarrow> l \<noteq> [] \<and> c \<noteq> [] \<and> l \<noteq> c)))
   \<and> (latest_fw_version e beta b = (Inl x, b1) \<longrightarrow> has_fw_update e beta b = (Inl x, b1))
   \<and> latest_fw_version e False b
        = (Inr (iv_get (info_values b) INFO_VALUE_LATEST_FIRMWARE_VERSION), b)"
proof -
  have a: "\<exists>v. has_fw_update e beta b = (Inr v, b1)
         \<and> (truthy v \<longleftrightarrow> truthy lt \<and> truthy (fw_version b) \<and> \<not> py_eq lt (fw_version b))"
    if h: "latest_fw_version e beta b = (Inr lt, b1)" for lt
    using h latest_fw_version_fw [OF h]
    by (simp add: has_fw_update_def py_and_def Let_def)
  have b: "\<exists>v. has_fw_update e beta b = (Inr v, b1) \<and> (truthy v \<longleftrightarrow> l \<noteq> [] \<and> c \<noteq> [] \<and> l \<noteq> c)"
    if h: "latest_fw_version e beta b = (Inr (PStr l), b1)" and f: "fw_version b = PStr c"
    using a [OF h] f by simp
  have c: "has_fw_update e beta b = (Inl x, b1)" if "latest_fw_version e beta b = (Inl x, b1)"
    using that by (simp add: has_fw_update_def)
  have d: "latest_fw_version e False b
        = (Inr (iv_get (info_values b) INFO_VALUE_LATEST_FIRMWARE_VERSION), b)"
    by (simp add: latest_fw_version_def)
  from a b c d show ?thesis by blast
qed


lemma fw_block_values:
  "fw_version (fw_block c l) = c"
  "iv_get (info_values (fw_block c l)) INFO_VALUE_LATEST_FIRMWARE_VERSION = l"
  "firmware_mgr (fw_block c l) = fm_init"
  "block_type (fw_block c l) = ''SHPLG-S''"
  by (simp_all add: fw_block_def fw_version_def iv_get_def plug_block_eq)

text \<open>
  C7 (as amended). Firmware "has update". Whenever the lookup of the latest version
  returns a value (it always does for \<open>beta = False\<close>, where that value is the info
  value reported by the device), \<open>has_fw_update\<close> returns a value that is true, in
  Python's sense, exactly when the latest and the current version are both true in
  Python's sense and are unequal. For strings this means: both are not empty and they
  differ. So it is false when a version is \<^verbatim>\<open>None\<close> or the empty string, and when the
  two are equal.
\<close>

theorem has_fw_update_truthy:
  "(latest_fw_version e beta b = (Inr latest, b1) \<longrightarrow>
      (\<exists>v. has_fw_update e beta b = (Inr v, b1)
         \<and> (truthy v \<longleftrightarrow> truthy latest \<and> truthy (fw_version b)
                          \<and> \<not> py_eq latest (fw_version b))))
   \<and> (latest_fw_version e beta b = (Inr (PStr l), b1) \<and> fw_version b = PStr c \<longrightarrow>
      (\<exists>v. has_fw_update e beta b = (Inr v, b1) \<and> (truthy v \<longleftrightarrow> l \<noteq> [] \<and> c \<noteq> [] \<and> l \<noteq> c)))
   \<and> latest_fw_version e False b
        = (Inr (iv_get (info_values b) INFO_VALUE_LATEST_FIRMWARE_VERSION), b)"
  using has_fw_update_lemma [of e beta b latest b1 l c] by blast

theorem has_fw_update_truthy_witness:
  "has_fw_update env0 False (fw_block (PStr ''1.2'') (PStr ''1.3''))
     = (Inr (PBool True), fw_block (PStr ''1.2'') (PStr ''1.3''))
   \<and> has_fw_update env0 False (fw_block (PStr ''1.2'') (PStr ''1.2''))
     = (Inr (PBool False), fw_block (PStr ''1.2'') (PStr ''1.2''))
   \<and> has_fw_update env0 False (fw_block PNone (PStr ''1.3''))
     = (Inr PNone, fw_block PNone (PStr ''1.3''))"
proof -
  have l: "latest_fw_version env0 False (fw_block cur lat) = (Inr lat, fw_block cur lat)"
    for cur lat
    using has_fw_update_truthy [of env0 False "fw_block cur lat"]
    by (simp add: fw_block_values)
  have a: "\<exists>v. has_fw_update env0 False (fw_block (PStr ''1.2'') (PStr ''1.3''))
                 = (Inr v, fw_block (PStr ''1.2'') (PStr ''1.3'')) \<and> truthy v"
    using has_fw_update_truthy [of env0 False "fw_block (PStr ''1.2'') (PStr ''1.3'')"
        "PStr ''1.3''" "fw_block (PStr ''1.2'') (PStr ''1.3'')" "''1.3''" "''1.2''"] l
    by (simp add: fw_block_values)
  have b: "\<exists>v. has_fw_update env0 False (fw_block (PStr ''1.2'') (PStr ''1.2''))
                 = (Inr v, fw_block (PStr ''1.2'') (PStr ''1.2'')) \<and> \<not> truthy v"
    using has_fw_update_truthy [of env0 False "fw_block (PStr ''1.2'') (PStr ''1.2'')"
        "PStr ''1.2''" "fw_block (PStr ''1.2'') (PStr ''1.2'')" "''1.2''" "''1.2''"] l
    by (simp add: fw_block_values)
  have c: "\<exists>v. has_fw_update env0 False (fw_block PNone (PStr ''1.3''))
                 = (Inr v, fw_block PNone (PStr ''1.3'')) \<and> \<not> truthy v"
    using has_fw_update_truthy [of env0 False "fw_block PNone (PStr ''1.3'')"
        "PStr ''1.3''" "fw_block PNone (PStr ''1.3'')"] l
    by (simp add: fw_block_values)
  show ?thesis
    using a b c l
    by (auto simp add: has_fw_update_def py_and_def fw_block_values Let_def)
qed

text \<open>As stated, C7 fails when a version is present but empty, as in the status of a
  device that has no newer firmware to offer: both values are there and are unequal, and
  the result is the empty string, which is false.\<close>

theorem has_fw_update_counterexample:
  "info_values (fw_block (PStr ''1.2'') (PStr [])) INFO_VALUE_FW_VERSION = Some (PStr ''1.2'')
   \<and> info_values (fw_block (PStr ''1.2'') (PStr [])) INFO_VALUE_LATEST_FIRMWARE_VERSION
       = Some (PStr [])
   \<and> ''1.2'' \<noteq> ([] :: string)
   \<and> fst (has_fw_update env0 False (fw_block (PStr ''1.2'') (PStr []))) = Inr (PStr [])
   \<and> \<not> truthy (PStr [])"
  by (simp add: has_fw_update_def latest_fw_version_def py_and_def fw_block_values Let_def)
     (simp add: fw_block_def)

lemma failed_fetch_state:
  "catalog_response e = None \<Longrightarrow>
   list_firmwares e fm_init = (Some [], \<lparr>firmwares = Some [], downloaded = True\<rparr>)"
  by (simp add: list_firmwares_def fm_init_def fm_http_get_def Let_def)

lemma empty_cache_queries:
  "version e t beta \<lparr>firmwares = Some [], downloaded = True\<rparr>
     = (Inr PNone, \<lparr>firmwares = Some [], downloaded = True\<rparr>)"
  "url e t beta \<lparr>firmwares = Some [], downloaded = True\<rparr>
     = (Inr None, \<lparr>firmwares = Some [], downloaded = True\<rparr>)"
  by (simp_all add: version_def url_def list_firmwares_def)

lemma catalog_fetch_failure_lemma:
  assumes "catalog_response e = None" and "firmware_mgr b = snd (list_firmwares e fm_init)"
  shows "list_firmwares e fm_init = (Some [], \<lparr>firmwares = Some [], downloaded = True\<rparr>)
    \<and> version e' t beta (firmware_mgr b) = (Inr PNone, firmware_mgr b)
    \<and> url e' t beta (firmware_mgr b) = (Inr None, firmware_mgr b)
    \<and> has_fw_update e' True b = (Inr PNone, b)
    \<and> has_fw_update e' False b
        = (Inr (py_and (iv_get (info_values b) INFO_VALUE_LATEST_FIRMWARE_VERSION)
                 (py_and (fw_version b)
                    (PBool (\<not> py_eq (iv_get (info_values b) INFO_VALUE_LATEST_FIRMWARE_VERSION)
                                (fw_version b))))), b)"
proof -
  have fm: "firmware_mgr b = \<lparr>firmwares = Some [], downloaded = True\<rparr>"
    using assms failed_fetch_state [of e] by simp
  have v: "version e' t' beta' (firmware_mgr b) = (Inr PNone, firmware_mgr b)" for t' beta'
    unfolding fm by (rule empty_cache_queries)
  have l: "latest_fw_version e' True b = (Inr PNone, b)"
    using v [of "block_type b" True] by (simp add: latest_fw_version_def)
  show ?thesis
    using failed_fetch_state [OF assms(1)] v l
    by (simp add: fm empty_cache_queries has_fw_update_def latest_fw_version_def py_and_def
          Let_def)
qed


lemma stale_block_eq:
  "stale_block = (fw_block (PStr ''1.2'') (PStr ''1.3''))
                   \<lparr>firmware_mgr := \<lparr>firmwares = Some [], downloaded = True\<rparr>\<rparr>"
  by (simp add: stale_block_def has_fw_update_def latest_fw_version_def version_def
        list_firmwares_def fm_http_get_def fw_block_values fm_init_def Let_def env0_def)

text \<open>
  C9 (as amended). Catalogue fetch failure. When the one fetch of the catalogue fails,
  the property \<^verbatim>\<open>_list_firmwares\<close> returns the empty dict instead of raising, and the
  manager keeps it: every later \<open>version\<close> and \<open>url\<close> query, in whatever environment,
  returns \<^verbatim>\<open>None\<close> and leaves the manager as it is (no second fetch), and every later
  \<open>has_fw_update\<close> with \<open>beta = True\<close> returns \<^verbatim>\<open>None\<close>, which is false. With
  \<open>beta = False\<close> the catalogue is not consulted: the answer is computed from the info
  values that the device reported.
\<close>

theorem catalog_fetch_failure:
  assumes "catalog_response e = None" and "firmware_mgr b = snd (list_firmwares e fm_init)"
  shows "list_firmwares e fm_init = (Some [], \<lparr>firmwares = Some [], downloaded = True\<rparr>)
    \<and> version e' t beta (firmware_mgr b) = (Inr PNone, firmware_mgr b)
    \<and> url e' t beta (firmware_mgr b) = (Inr None, firmware_mgr b)
    \<and> has_fw_update e' True b = (Inr PNone, b)
    \<and> has_fw_update e' False b
        = (Inr (py_and (iv_get (info_values b) INFO_VALUE_LATEST_FIRMWARE_VERSION)
                 (py_and (fw_version b)
                    (PBool (\<not> py_eq (iv_get (info_values b) INFO_VALUE_LATEST_FIRMWARE_VERSION)
                                (fw_version b))))), b)"
  using assms by (rule catalog_fetch_failure_lemma)

theorem catalog_fetch_failure_witness:
  "catalog_response env0 = None
   \<and> firmware_mgr stale_block = \<lparr>firmwares = Some [], downloaded = True\<rparr>
   \<and> version env_catalog ''SHPLG-S'' True (firmware_mgr stale_block)
       = (Inr PNone, firmware_mgr stale_block)
   \<and> has_fw_update env_catalog True stale_block = (Inr PNone, stale_block)"
proof -
  have h1: "catalog_response env0 = None"
    by (simp add: env0_def)
  have s: "firmware_mgr stale_block = \<lparr>firmwares = Some [], downloaded = True\<rparr>"
    by (simp add: stale_block_eq)
  have h2: "firmware_mgr stale_block = snd (list_firmwares env0 fm_init)"
    by (simp add: s failed_fetch_state [OF h1])
  show ?thesis
    using catalog_fetch_failure [OF h1 h2, of env_catalog "''SHPLG-S''" True] h1 s
    by simp
qed

text \<open>As stated, C9 fails for the query that does not ask for a beta: the fetch has
  failed, and the plug still reports an update from 1.2 to 1.3.\<close>

theorem catalog_fetch_failure_counterexample:
  "catalog_response env0 = None
   \<and> firmware_mgr stale_block = snd (list_firmwares env0 fm_init)
   \<and> has_fw_update env_catalog False stale_block = (Inr (PBool True), stale_block)"
  by (simp add: stale_block_eq has_fw_update_def latest_fw_version_def py_and_def
        fw_version_def iv_get_def fw_block_def list_firmwares_def fm_init_def fm_http_get_def
        Let_def env0_def)

lemma url_not_beta:
  assumes "downloaded fm \<longrightarrow> firmwares fm \<noteq> None"
  shows "url e t False fm = (Inr None, snd (list_firmwares e fm))"
  using assms
  by (auto simp add: url_def list_firmwares_def Let_def split: option.splits)

lemma fm_wf_init: "downloaded fm_init \<longrightarrow> firmwares fm_init \<noteq> None"
  by (simp add: fm_init_def)

lemma fm_wf_list_firmwares:
  "downloaded fm \<longrightarrow> firmwares fm \<noteq> None \<Longrightarrow>
   downloaded (snd (list_firmwares e fm)) \<longrightarrow> firmwares (snd (list_firmwares e fm)) \<noteq> None"
  by (auto simp add: list_firmwares_def Let_def split: option.splits)

lemma update_firmware_lemma:
  assumes "downloaded (firmware_mgr b) \<longrightarrow> firmwares (firmware_mgr b) \<noteq> None"
  shows "update_firmware e beta b =
           (Ok, b\<lparr>firmware_mgr := (if beta then snd (list_firmwares e (firmware_mgr b))
                                    else firmware_mgr b),
                  events := events b @ [HttpGet ''/ota?update=1'']\<rparr>)
     \<and> fst (url e t False (firmware_mgr b)) = Inr None"
  using url_not_beta [OF assms, of e]
  by (simp add: update_firmware_def http_get_def log_event_def Let_def split: prod.splits)

text \<open>
  C10. \<open>update_firmware\<close> sends the generic request \<^verbatim>\<open>/ota?update=1\<close>, and nothing
  else, for both values of \<open>beta\<close>: the lookup \<open>url\<close> is made with \<open>beta = False\<close>, for
  which it returns \<^verbatim>\<open>None\<close>. The hypothesis is the invariant of the firmware manager
  (a manager marked as downloaded holds a catalogue), which \<open>fm_init\<close> satisfies and
  \<open>list_firmwares\<close> keeps.
\<close>

theorem update_firmware_generic:
  assumes "downloaded (firmware_mgr b) \<longrightarrow> firmwares (firmware_mgr b) \<noteq> None"
  shows "update_firmware e beta b =
           (Ok, b\<lparr>firmware_mgr := (if beta then snd (list_firmwares e (firmware_mgr b))
                                    else firmware_mgr b),
                  events := events b @ [HttpGet ''/ota?update=1'']\<rparr>)
     \<and> fst (url e t False (firmware_mgr b)) = Inr None"
  using assms by (rule update_firmware_lemma)

theorem update_firmware_generic_witness:
  "fst (url env_catalog ''SHPLG-S'' True (firmware_mgr plug_block))
     = Inr (Some ''http://repo/SHPLG-S_beta.zip'')
   \<and> events (snd (update_firmware env_catalog True plug_block))
     = [HttpGet ''/settings'', HttpGet ''/ota?update=1'']
   \<and> events (snd (update_firmware env_catalog False plug_block))
     = [HttpGet ''/settings'', HttpGet ''/ota?update=1'']"
proof -
  have h: "downloaded (firmware_mgr plug_block) \<longrightarrow> firmwares (firmware_mgr plug_block) \<noteq> None"
    by (simp add: plug_block_eq fm_init_def)
  have u: "fst (url env_catalog ''SHPLG-S'' True (firmware_mgr plug_block))
     = Inr (Some ''http://repo/SHPLG-S_beta.zip'')"
    by (simp add: url_def list_firmwares_def fm_http_get_def plug_block_eq fm_init_def Let_def
          env_catalog_def env0_def)
  have ev: "events plug_block = [HttpGet ''/settings'']"
    by (simp add: plug_block_eq)
  show ?thesis
    using update_firmware_generic [OF h, of env_catalog True]
      update_firmware_generic [OF h, of env_catalog False] u ev
    by simp
qed

end
